theory Spec2Isabelle
  imports Complex_Main "HOL-Library.Word"
begin

section \<open>The TenX single aligner: data model\<close>

text \<open>
  A shallow embedding of \<^verbatim>\<open>SNAPLib/TenXSingleAligner.cpp\<close>.

  \<^item> C++ \<^verbatim>\<open>unsigned\<close> and \<^verbatim>\<open>int\<close> scores are 32-bit words: \<open>+\<close> and \<open>-\<close> wrap,
    \<open>\<le>\<close> and \<open><\<close> compare unsigned, \<open><s\<close> compares signed; the constant \<open>- 1\<close> is
    \<^verbatim>\<open>0xFFFFFFFF\<close>.
  \<^item> \<^verbatim>\<open>_uint8\<close> cluster counters are 8-bit words.
  \<^item> A cluster identifier is only copied, compared with \<open>- 1\<close> and used as an array index,
    so it is an \<open>int\<close>.
  \<^item> Genome locations are mathematical integers (the declaring header is not part of
    the sources; the specification calls them non-negative integers of one linear
    address space).
  \<^item> A \<^verbatim>\<open>double\<close> probability is a real number (every finite \<^verbatim>\<open>double\<close> is one),
    compared exactly. The sum and the product of two \<^verbatim>\<open>double\<close>s are rounded by the
    machine; they are the parameters \<open>doublePlus\<close> and \<open>doubleTimes\<close> of the model.
  \<^item> The bump-allocated pools (\<^verbatim>\<open>mergeAnchorPool\<close> with \<^verbatim>\<open>firstFreeMergeAnchor\<close>, and
    the candidate pools) are lists holding the used prefix of the pool; a pointer into a
    pool is its index.
\<close>

type_synonym u8 = "8 word"
type_synonym u32 = "32 word"
type_synonym prob = real
type_synonym GenomeLocation = int

text \<open>
  What ends a call other than a return: an access outside an array (undefined behaviour
  in the source; the error names the array), and the two \<^verbatim>\<open>soft_exit(1)\<close> calls, for an exhausted pool and for a read
  longer than \<^verbatim>\<open>maxReadSize\<close>.
\<close>

datatype array =
    HitsArray | DisjointHitSetsArray | SetPairArrays | ScoringCandidatesArray | CandidatePool
  | MateCandidatePool | MergeAnchorPool | SecondaryResultsBuffer

datatype error = OutOfBounds array | PoolExhausted | ReadTooBig

text \<open>
  The constructor's parameters that the modelled functions read. \<^verbatim>\<open>seedCoverage\<close> is a
  \<^verbatim>\<open>double\<close> that is read once, in the expression
  \<^verbatim>\<open>(int)(max(length) * seedCoverage / index->getSeedLength())\<close> of line 199, which the
  machine computes in \<^verbatim>\<open>double\<close> arithmetic; \<open>seedsForCoverage\<close> is the value of that
  expression as a function of the larger of the two read lengths.
\<close>

record config =
  maxReadSize :: nat
  seedLen :: nat
  numSeedsFromCommandLine :: nat
  seedsForCoverage :: "nat \<Rightarrow> nat"
  maxBigHits :: nat
  maxK :: u32
  extraSearchDepth :: u32
  minSpacing :: u32
  maxSpacing :: u32
  clusterEDCompensation :: u32
  unclusteredPenalty :: prob
  noUkkonen :: bool
  noOrderedEvaluation :: bool
  noTruncation :: bool
  scoringCandidatePoolSize :: nat
  mergeAnchorPoolSize :: nat

text \<open>
  \<^verbatim>\<open>MergeAnchor\<close>: the fields written by \<^verbatim>\<open>checkMerge\<close>. \<open>candidate\<close> is the index of
  the owning \<^verbatim>\<open>ScoringCandidate\<close> in \<^verbatim>\<open>scoringCandidatePool\<close>; \<open>mate\<close> is the index of
  the owning \<^verbatim>\<open>ScoringMateCandidate\<close> in \<^verbatim>\<open>scoringMateCandidates[whichSetPair]\<close> of
  that candidate's set pair.
\<close>

record MergeAnchor =
  locationForReadWithMoreHits :: GenomeLocation
  locationForReadWithFewerHits :: GenomeLocation
  matchProbability :: prob
  pairScore :: u32
  clusterIdx :: int
  candidate :: nat
  mate :: nat

text \<open>The two directions, \<^verbatim>\<open>FORWARD\<close> and \<^verbatim>\<open>RC\<close>, as array indices.\<close>

definition FORWARD :: nat where "FORWARD = 0"
definition RC :: nat where "RC = 1"

text \<open>
  Modelled from the spec: \<^verbatim>\<open>genomeLocationIsWithin\<close> is declared in a header that is not
  part of the sources. The specification reads it as membership of the closed window
  \<open>[b - distance, b + distance]\<close> ("within [C.locus - maxSpacing, C.locus + maxSpacing]").
\<close>

definition genomeLocationIsWithin :: "GenomeLocation \<Rightarrow> GenomeLocation \<Rightarrow> int \<Rightarrow> bool" where
  "genomeLocationIsWithin locationA locationB distance = (\<bar>locationA - locationB\<bar> \<le> distance)"

section \<open>Hit sets\<close>

text \<open>
  \<^verbatim>\<open>HashTableLookup\<close> and \<^verbatim>\<open>HashTableHitSet\<close>. The model follows the variant for 64-bit
  genome locations (\<^verbatim>\<open>lookups64\<close>); the 32-bit variant is the same text over
  \<^verbatim>\<open>lookups32\<close>. \<open>hits\<close> is the pointer handed over by the index, which is not part of
  the sources: it points to the first of the \<open>entries\<close> of an array in the index's
  memory. The sources do not say what lies before that entry, and the binary search
  below reads it: \<open>wordBefore\<close> is the word at \<^verbatim>\<open>hits[-1]\<close>, or \<open>None\<close> when the memory
  there cannot be read. \<open>nHits\<close> and \<open>currentHitForIntersection\<close> are \<^verbatim>\<open>_int64\<close>. \<open>lookups\<close> holds the \<^verbatim>\<open>nLookupsUsed\<close>
  recorded lookups; they are also the members of the list of lookups with remaining
  members, which \<^verbatim>\<open>recordLookup\<close> extends and nothing shortens.
  \<open>disjointHitSets\<close> holds \<^verbatim>\<open>countOfExhaustedHits\<close> of the disjoint hit sets
  \<open>0 .. currentDisjointHitSet\<close>, so \<^verbatim>\<open>currentDisjointHitSet\<close> is its length less one.
\<close>

record hit_array =
  wordBefore :: "GenomeLocation option"
  entries :: "GenomeLocation list"

record HashTableLookup =
  hits :: hit_array
  nHits :: int
  currentHitForIntersection :: int
  lookupSeedOffset :: u32
  whichDisjointHitSet :: int

record HashTableHitSet =
  lookups :: "HashTableLookup list"
  disjointHitSets :: "u32 list"
  mostRecentLocationReturned :: GenomeLocation

text \<open>
  A read of \<^verbatim>\<open>hits[i]\<close>: the entry when \<open>i\<close> is an index of the array, the word before the
  array when \<open>i\<close> is \<open>- 1\<close> and that word can be read, and nothing otherwise.
\<close>

definition hit_at :: "hit_array \<Rightarrow> int \<Rightarrow> GenomeLocation option" where
  "hit_at hs i =
     (if i = - 1 then wordBefore hs
      else if 0 \<le> i \<and> i < int (length (entries hs)) then Some (entries hs ! nat i)
      else None)"

text \<open>C++ division of an \<^verbatim>\<open>_int64\<close> by 2, which truncates towards zero.\<close>

definition half :: "int \<Rightarrow> int" where
  "half x = (if x < 0 then - ((- x) div 2) else x div 2)"

text \<open>
  The binary search of \<^verbatim>\<open>getNextHitLessThanOrEqualTo\<close> for one lookup (lines
  1586-1641), on \<^verbatim>\<open>limit[0]\<close> and \<^verbatim>\<open>limit[1]\<close>. Both \<^verbatim>\<open>hits[probe]\<close> and
  \<^verbatim>\<open>hits[probe - 1]\<close> are read before the clauses are evaluated, so at probe 0 the
  word before the array is read (and then not used: \<^verbatim>\<open>clause2\<close> holds). The search ends
  with the probe it accepted and the hit there, or with the limits crossed. (The prefetch
  hints only compute addresses.)
\<close>

datatype probe_result = Found int GenomeLocation | Crossed

function probe_loop :: "hit_array \<Rightarrow> GenomeLocation \<Rightarrow> int \<Rightarrow> int \<Rightarrow> error + probe_result" where
  "probe_loop hs maxGenomeLocationToFindThisSeed limit0 limit1 =
     (if limit0 \<le> limit1 then
        (let probe = half (limit0 + limit1) in
         case hit_at hs probe of
           None \<Rightarrow> Inl (OutOfBounds HitsArray)
         | Some probeHit \<Rightarrow>
             (case hit_at hs (probe - 1) of
                None \<Rightarrow> Inl (OutOfBounds HitsArray)
              | Some probeMinusOneHit \<Rightarrow>
                  if probeHit \<le> maxGenomeLocationToFindThisSeed
                     \<and> (probe = 0 \<or> probeMinusOneHit > maxGenomeLocationToFindThisSeed)
                  then Inr (Found probe probeHit)
                  else if probeHit > maxGenomeLocationToFindThisSeed
                  then probe_loop hs maxGenomeLocationToFindThisSeed (probe + 1) limit1
                  else probe_loop hs maxGenomeLocationToFindThisSeed limit0 (probe - 1)))
      else Inr Crossed)"
  by pat_completeness auto
termination
  by (relation "measure (\<lambda>(hs, m, limit0, limit1). nat (limit1 - limit0 + 1))")
     (auto simp: half_def)

declare probe_loop.simps [simp del]

text \<open>
  The loop of \<^verbatim>\<open>getNextHitLessThanOrEqualTo\<close> over the lookups (lines 1568-1652). The
  state is \<^verbatim>\<open>anyFound\<close>, \<^verbatim>\<open>bestLocationFound\<close>, the out parameters
  \<^verbatim>\<open>*actualGenomeLocationFound\<close> and \<^verbatim>\<open>*seedOffsetFound\<close>,
  \<^verbatim>\<open>mostRecentLocationReturned\<close>, and the lookups already visited (with their new
  \<^verbatim>\<open>currentHitForIntersection\<close>).
\<close>

fun next_hit_loop ::
  "GenomeLocation \<Rightarrow> HashTableLookup list
   \<Rightarrow> bool \<times> GenomeLocation \<times> GenomeLocation \<times> u32 \<times> GenomeLocation \<times> HashTableLookup list
   \<Rightarrow> error + bool \<times> GenomeLocation \<times> GenomeLocation \<times> u32 \<times> GenomeLocation \<times> HashTableLookup list"
where
  "next_hit_loop maxGenomeLocationToFind [] s = Inr s"
| "next_hit_loop maxGenomeLocationToFind (l # rest)
     (anyFound, bestLocationFound, actualGenomeLocationFound, seedOffsetFound, mostRecent, done) =
     (case probe_loop (hits l) (maxGenomeLocationToFind + uint (lookupSeedOffset l))
             (currentHitForIntersection l) (nHits l - 1) of
        Inl e \<Rightarrow> Inl e
      | Inr (Found probe probeHit) \<Rightarrow>
          (let l' = l\<lparr>currentHitForIntersection := probe\<rparr> in
           if probeHit - uint (lookupSeedOffset l) > bestLocationFound
           then next_hit_loop maxGenomeLocationToFind rest
                  (True, probeHit - uint (lookupSeedOffset l), probeHit - uint (lookupSeedOffset l),
                   lookupSeedOffset l, probeHit - uint (lookupSeedOffset l), done @ [l'])
           else next_hit_loop maxGenomeLocationToFind rest
                  (anyFound, bestLocationFound, actualGenomeLocationFound, seedOffsetFound,
                   mostRecent, done @ [l']))
      | Inr Crossed \<Rightarrow>
          next_hit_loop maxGenomeLocationToFind rest
            (anyFound, bestLocationFound, actualGenomeLocationFound, seedOffsetFound, mostRecent,
             done @ [l\<lparr>currentHitForIntersection := nHits l\<rparr>]))"

text \<open>
  \<^verbatim>\<open>HashTableHitSet::getNextHitLessThanOrEqualTo\<close> (lines 1562-1657): the value returned,
  the two out parameters (given with their old values, which stay when nothing is found)
  and the hit set as the call leaves it.
\<close>

definition getNextHitLessThanOrEqualTo ::
  "HashTableHitSet \<Rightarrow> GenomeLocation \<Rightarrow> GenomeLocation \<Rightarrow> u32
   \<Rightarrow> error + bool \<times> GenomeLocation \<times> u32 \<times> HashTableHitSet"
where
  "getNextHitLessThanOrEqualTo h maxGenomeLocationToFind actualGenomeLocationFound seedOffsetFound =
     (case next_hit_loop maxGenomeLocationToFind (lookups h)
             (False, 0, actualGenomeLocationFound, seedOffsetFound, mostRecentLocationReturned h, []) of
        Inl e \<Rightarrow> Inl e
      | Inr (anyFound, bestLocationFound, actual', seedOffset', mostRecent', lookups') \<Rightarrow>
          Inr (anyFound, actual', seedOffset',
               h\<lparr>lookups := lookups', mostRecentLocationReturned := mostRecent'\<rparr>))"

text \<open>
  \<^verbatim>\<open>maxMergeDistance\<close> (line 1821).
\<close>

definition maxMergeDistance :: int where
  "maxMergeDistance = 31"

text \<open>
  The test of \<^verbatim>\<open>computeBestPossibleScoreForCurrentHit\<close> on one lookup (lines 1535-1538):
  the current hit, if there is one, or else the hit before it, if there is one, is
  within \<^verbatim>\<open>maxMergeDistance\<close> of the location last returned plus the seed offset. The
  second hit is read only when the first test fails.
\<close>

definition hit_is_close :: "GenomeLocation \<Rightarrow> HashTableLookup \<Rightarrow> error + bool" where
  "hit_is_close mostRecent l =
     (let target = mostRecent + uint (lookupSeedOffset l);
          first =
            (if currentHitForIntersection l \<noteq> nHits l
             then (case hit_at (hits l) (currentHitForIntersection l) of
                     None \<Rightarrow> Inl (OutOfBounds HitsArray)
                   | Some h \<Rightarrow> Inr (genomeLocationIsWithin h target maxMergeDistance))
             else Inr False)
      in case first of
           Inl e \<Rightarrow> Inl e
         | Inr True \<Rightarrow> Inr True
         | Inr False \<Rightarrow>
             (if currentHitForIntersection l \<noteq> 0
              then (case hit_at (hits l) (currentHitForIntersection l - 1) of
                      None \<Rightarrow> Inl (OutOfBounds HitsArray)
                    | Some h \<Rightarrow> Inr (genomeLocationIsWithin h target maxMergeDistance))
              else Inr False))"

text \<open>
  The loop over the lookups with remaining members (lines 1531-1544); \<open>missCount\<close> is the
  array of the miss counts of the disjoint hit sets.
\<close>

fun miss_count_loop :: "GenomeLocation \<Rightarrow> HashTableLookup list \<Rightarrow> u32 list \<Rightarrow> error + u32 list" where
  "miss_count_loop mostRecent [] missCount = Inr missCount"
| "miss_count_loop mostRecent (l # rest) missCount =
     (case hit_is_close mostRecent l of
        Inl e \<Rightarrow> Inl e
      | Inr True \<Rightarrow> miss_count_loop mostRecent rest missCount
      | Inr False \<Rightarrow>
          if whichDisjointHitSet l < 0 \<or> int (length missCount) \<le> whichDisjointHitSet l
          then Inl (OutOfBounds DisjointHitSetsArray)
          else miss_count_loop mostRecent rest
                 (missCount[nat (whichDisjointHitSet l) :=
                    missCount ! nat (whichDisjointHitSet l) + 1]))"

text \<open>
  \<^verbatim>\<open>HashTableHitSet::computeBestPossibleScoreForCurrentHit\<close> (lines 1518-1560): the miss
  counts start from the exhausted counts, and the result is their maximum. (The miss
  counts are scratch values of the hit set, recomputed by every call.)
\<close>

definition computeBestPossibleScoreForCurrentHit :: "HashTableHitSet \<Rightarrow> error + u32" where
  "computeBestPossibleScoreForCurrentHit h =
     (case miss_count_loop (mostRecentLocationReturned h) (rev (lookups h)) (disjointHitSets h) of
        Inl e \<Rightarrow> Inl e
      | Inr missCount \<Rightarrow> Inr (foldl max 0 missCount))"

text \<open>
  \<^verbatim>\<open>HashTableHitSet::getFirstHit\<close> (lines 1660-1689). It returns true when there is
  \<^emph>\<open>no\<close> hit; \<^verbatim>\<open>*genomeLocation\<close> is set to 0 first, \<^verbatim>\<open>*seedOffsetFound\<close> keeps its old
  value when nothing is found.
\<close>

fun first_hit_loop ::
  "HashTableLookup list \<Rightarrow> bool \<times> GenomeLocation \<times> u32 \<times> GenomeLocation
   \<Rightarrow> error + bool \<times> GenomeLocation \<times> u32 \<times> GenomeLocation"
where
  "first_hit_loop [] s = Inr s"
| "first_hit_loop (l # rest) (anyFound, genomeLocation, seedOffsetFound, mostRecent) =
     (if nHits l > 0 then
        (case hit_at (hits l) 0 of
           None \<Rightarrow> Inl (OutOfBounds HitsArray)
         | Some h \<Rightarrow>
             if h - uint (lookupSeedOffset l) > genomeLocation
             then first_hit_loop rest
                    (True, h - uint (lookupSeedOffset l), lookupSeedOffset l,
                     h - uint (lookupSeedOffset l))
             else first_hit_loop rest (anyFound, genomeLocation, seedOffsetFound, mostRecent))
      else first_hit_loop rest (anyFound, genomeLocation, seedOffsetFound, mostRecent))"

definition getFirstHit ::
  "HashTableHitSet \<Rightarrow> u32 \<Rightarrow> error + bool \<times> GenomeLocation \<times> u32 \<times> HashTableHitSet"
where
  "getFirstHit h seedOffsetFound =
     (case first_hit_loop (lookups h) (False, 0, seedOffsetFound, mostRecentLocationReturned h) of
        Inl e \<Rightarrow> Inl e
      | Inr (anyFound, genomeLocation, seedOffset', mostRecent') \<Rightarrow>
          Inr (\<not> anyFound, genomeLocation, seedOffset', h\<lparr>mostRecentLocationReturned := mostRecent'\<rparr>))"

text \<open>
  The loop of \<^verbatim>\<open>getNextLowerHit\<close> (lines 1704-1754) with \<^verbatim>\<open>foundLocation\<close>,
  \<^verbatim>\<open>anyFound\<close>, the out parameters and the lookups already visited. A lookup whose
  current hit is the location last returned moves to its next hit first.
\<close>

fun next_lower_loop ::
  "GenomeLocation \<Rightarrow> HashTableLookup list
   \<Rightarrow> GenomeLocation \<times> bool \<times> GenomeLocation \<times> u32 \<times> HashTableLookup list
   \<Rightarrow> error + GenomeLocation \<times> bool \<times> GenomeLocation \<times> u32 \<times> HashTableLookup list"
where
  "next_lower_loop mostRecent [] s = Inr s"
| "next_lower_loop mostRecent (l # rest) (foundLocation, anyFound, genomeLocation, seedOffsetFound, done) =
     (if nHits l = currentHitForIntersection l
      then next_lower_loop mostRecent rest
             (foundLocation, anyFound, genomeLocation, seedOffsetFound, done @ [l])
      else
        (case hit_at (hits l) (currentHitForIntersection l) of
           None \<Rightarrow> Inl (OutOfBounds HitsArray)
         | Some hitLocation \<Rightarrow>
             (let advance = (hitLocation - uint (lookupSeedOffset l) = mostRecent);
                  l' = (if advance
                        then l\<lparr>currentHitForIntersection := currentHitForIntersection l + 1\<rparr>
                        else l)
              in if advance \<and> currentHitForIntersection l' = nHits l
                 then next_lower_loop mostRecent rest
                        (foundLocation, anyFound, genomeLocation, seedOffsetFound, done @ [l'])
                 else
                   (case hit_at (hits l) (currentHitForIntersection l') of
                      None \<Rightarrow> Inl (OutOfBounds HitsArray)
                    | Some hitLocation' \<Rightarrow>
                        if foundLocation < hitLocation' - uint (lookupSeedOffset l)
                           \<and> hitLocation' \<ge> uint (lookupSeedOffset l)
                        then next_lower_loop mostRecent rest
                               (hitLocation' - uint (lookupSeedOffset l), True,
                                hitLocation' - uint (lookupSeedOffset l), lookupSeedOffset l,
                                done @ [l'])
                        else next_lower_loop mostRecent rest
                               (foundLocation, anyFound, genomeLocation, seedOffsetFound,
                                done @ [l'])))))"

text \<open>
  \<^verbatim>\<open>HashTableHitSet::getNextLowerHit\<close> (lines 1691-1761): the value returned, the out
  parameters and the hit set.
\<close>

definition getNextLowerHit ::
  "HashTableHitSet \<Rightarrow> GenomeLocation \<Rightarrow> u32
   \<Rightarrow> error + bool \<times> GenomeLocation \<times> u32 \<times> HashTableHitSet"
where
  "getNextLowerHit h genomeLocation seedOffsetFound =
     (case next_lower_loop (mostRecentLocationReturned h) (lookups h)
             (0, False, genomeLocation, seedOffsetFound, []) of
        Inl e \<Rightarrow> Inl e
      | Inr (foundLocation, anyFound, genomeLocation', seedOffset', lookups') \<Rightarrow>
          Inr (anyFound, genomeLocation', seedOffset',
               h\<lparr>lookups := lookups',
                  mostRecentLocationReturned :=
                    (if anyFound then foundLocation else mostRecentLocationReturned h)\<rparr>))"

section \<open>Phase 3: cluster counters and the corrected best score\<close>

text \<open>
  \<^verbatim>\<open>align_phase_3_increment_cluster\<close> (lines 904-923). The loop over
  \<^verbatim>\<open>anchorIdx < firstFreeMergeAnchor\<close> is the recursion over the used anchors; the state
  is the shared counter array and the pair's toggle array, both owned by the caller and
  indexed by the cluster identifier.
\<close>

fun increment_cluster_loop ::
  "config \<Rightarrow> u32 \<Rightarrow> MergeAnchor list \<Rightarrow> (int \<Rightarrow> u8) \<times> (int \<Rightarrow> bool) \<Rightarrow> (int \<Rightarrow> u8) \<times> (int \<Rightarrow> bool)"
where
  "increment_cluster_loop cfg bestCompensatedScore [] (clusterCounterAry, clusterToggle) =
     (clusterCounterAry, clusterToggle)"
| "increment_cluster_loop cfg bestCompensatedScore (a # anchors) (clusterCounterAry, clusterToggle) =
     (let astrayEDPenalty = (if clusterIdx a = - 1 then clusterEDCompensation cfg else 0) in
      if pairScore a + astrayEDPenalty \<le> bestCompensatedScore + extraSearchDepth cfg then
        (let c = clusterIdx a in
         if c \<noteq> - 1 \<and> \<not> clusterToggle c then
           increment_cluster_loop cfg bestCompensatedScore anchors
             ((if clusterCounterAry c \<noteq> 255
               then clusterCounterAry(c := clusterCounterAry c + 1)
               else clusterCounterAry),
              clusterToggle(c := True))
         else increment_cluster_loop cfg bestCompensatedScore anchors (clusterCounterAry, clusterToggle))
      else increment_cluster_loop cfg bestCompensatedScore anchors (clusterCounterAry, clusterToggle))"

definition align_phase_3_increment_cluster ::
  "config \<Rightarrow> MergeAnchor list \<Rightarrow> u32 \<Rightarrow> (int \<Rightarrow> u8) \<times> (int \<Rightarrow> bool) \<Rightarrow> (int \<Rightarrow> u8) \<times> (int \<Rightarrow> bool)"
where
  "align_phase_3_increment_cluster cfg anchors bestCompensatedScore s =
     increment_cluster_loop cfg bestCompensatedScore anchors s"

text \<open>
  A sequence of increment calls made for one pair: each call sees the anchors and the
  best score of its moment, the counters and the pair's toggles are threaded through.
\<close>

fun increment_calls ::
  "config \<Rightarrow> (MergeAnchor list \<times> u32) list \<Rightarrow> (int \<Rightarrow> u8) \<times> (int \<Rightarrow> bool) \<Rightarrow> (int \<Rightarrow> u8) \<times> (int \<Rightarrow> bool)"
where
  "increment_calls cfg [] s = s"
| "increment_calls cfg ((anchors, best) # calls) s =
     increment_calls cfg calls (align_phase_3_increment_cluster cfg anchors best s)"

text \<open>
  \<^verbatim>\<open>align_phase_3_correct_best_score\<close> (lines 926-955): the loop computing
  \<^verbatim>\<open>newBestCompensatedScore\<close>, then the comparison with the caller's
  \<^verbatim>\<open>bestCompensatedScore\<close> (an \<^verbatim>\<open>int &\<close>, compared and assigned as 32 bits).
\<close>

fun correct_best_score_loop ::
  "config \<Rightarrow> (int \<Rightarrow> u8) \<Rightarrow> u8 \<Rightarrow> MergeAnchor list \<Rightarrow> u32 \<Rightarrow> u32"
where
  "correct_best_score_loop cfg clusterCounterAry minClusterSize [] newBestCompensatedScore =
     newBestCompensatedScore"
| "correct_best_score_loop cfg clusterCounterAry minClusterSize (a # anchors) newBestCompensatedScore =
     (let c = clusterIdx a;
          astrayEDPenalty =
            (if c \<noteq> - 1 \<and> minClusterSize \<le> clusterCounterAry c then 0
             else clusterEDCompensation cfg)
      in correct_best_score_loop cfg clusterCounterAry minClusterSize anchors
           (if pairScore a + astrayEDPenalty < newBestCompensatedScore
            then pairScore a + astrayEDPenalty
            else newBestCompensatedScore))"

definition align_phase_3_correct_best_score ::
  "config \<Rightarrow> MergeAnchor list \<Rightarrow> (int \<Rightarrow> u8) \<Rightarrow> u32 \<Rightarrow> u8 \<Rightarrow> u32 \<times> bool"
where
  "align_phase_3_correct_best_score cfg anchors clusterCounterAry bestCompensatedScore minClusterSize =
     (let newBestCompensatedScore =
            correct_best_score_loop cfg clusterCounterAry minClusterSize anchors
              (maxK cfg + extraSearchDepth cfg + clusterEDCompensation cfg + 1)
      in if bestCompensatedScore \<noteq> newBestCompensatedScore
         then (newBestCompensatedScore, True)
         else (bestCompensatedScore, False))"

text \<open>
  What one or more increment calls may do to the counter and the toggle of cluster \<open>c\<close>:
  a set toggle stays set and freezes the counter; otherwise the counter is unchanged, or
  it was below 255, went up by one, and the toggle is now set.
\<close>

definition counter_step :: "(int \<Rightarrow> u8) \<Rightarrow> (int \<Rightarrow> bool) \<Rightarrow> (int \<Rightarrow> u8) \<Rightarrow> (int \<Rightarrow> bool) \<Rightarrow> int \<Rightarrow> bool" where
  "counter_step cnt tog cnt' tog' c =
     (if tog c then cnt' c = cnt c \<and> tog' c
      else cnt' c = cnt c \<or> (cnt' c = cnt c + 1 \<and> cnt c \<noteq> 255 \<and> tog' c))"

section \<open>Phase 1: seed lookups\<close>

text \<open>
  A \<^verbatim>\<open>Read\<close>: its bases, qualities and identifier; \<^verbatim>\<open>getDataLength()\<close> is the length of
  the bases.
\<close>

record Read =
  readData :: string
  readQuality :: string
  readId :: string

text \<open>
  What phase 1 calls but this file does not define: the index's \<^verbatim>\<open>lookupSeed\<close> (the hit
  arrays of a seed for the forward and the reverse-complement direction; \<^verbatim>\<open>nHits\<close> is
  the number of entries), \<^verbatim>\<open>Seed::DoesTextRepresentASeed\<close> and
  \<^verbatim>\<open>GetWrappedNextSeedToTest\<close>. They are parameters of the model.
\<close>

record genome_index =
  lookupSeed :: "string \<Rightarrow> hit_array \<times> hit_array"
  DoesTextRepresentASeed :: "string \<Rightarrow> bool"
  GetWrappedNextSeedToTest :: "nat \<Rightarrow> nat \<Rightarrow> nat"

text \<open>
  The members phase 1 fills: the four hit sets \<^verbatim>\<open>hashTableHitSets[whichRead][dir]\<close>, the
  counters per read, and \<^verbatim>\<open>popularSeedsSkipped\<close> (the caller's array). \<open>seedLookups\<close> is
  not a member: it lists the calls of \<^verbatim>\<open>lookupSeed\<close> made by this call of
  \<^verbatim>\<open>align_phase_1\<close>, as read and seed offset, newest first.
  The reverse-complement and reversed copies of the reads are left out: only the
  scoring oracle reads them, and it is a parameter.
\<close>

record seeding =
  hashTableHitSets :: "HashTableHitSet list list"
  countOfHashTableLookups :: "nat list"
  popularSeedsSkipped :: "nat list"
  totalHashTableHits :: "int list list"
  seedLookups :: "(nat \<times> nat) list"

text \<open>
  \<^verbatim>\<open>HashTableHitSet::init\<close> (lines 1448-1461) forgets the lookups and the disjoint hit
  sets.
\<close>

definition init_hit_set :: "HashTableHitSet \<Rightarrow> HashTableHitSet" where
  "init_hit_set h = h\<lparr>lookups := [], disjointHitSets := []\<rparr>"

text \<open>
  The trimming loop of \<^verbatim>\<open>recordLookup\<close> (lines 1493-1495): hits below the seed offset
  are cut from the end.
\<close>

fun trim_hits :: "hit_array \<Rightarrow> u32 \<Rightarrow> nat \<Rightarrow> error + nat" where
  "trim_hits hs seedOffset' 0 = Inr 0"
| "trim_hits hs seedOffset' (Suc n) =
     (case hit_at hs (int n) of
        None \<Rightarrow> Inl (OutOfBounds HitsArray)
      | Some h \<Rightarrow> if h < uint seedOffset' then trim_hits hs seedOffset' n else Inr (Suc n))"

text \<open>
  \<^verbatim>\<open>HashTableHitSet::recordLookup\<close> (lines 1470-1510). A lookup without hits counts as
  exhausted in the current disjoint hit set; one with hits becomes the next lookup.
\<close>

definition recordLookup ::
  "HashTableHitSet \<Rightarrow> u32 \<Rightarrow> int \<Rightarrow> hit_array \<Rightarrow> bool \<Rightarrow> error + HashTableHitSet"
where
  "recordLookup h seedOffset' nHits' hits' beginsDisjointHitSet =
     (let h1 = (if beginsDisjointHitSet then h\<lparr>disjointHitSets := disjointHitSets h @ [0]\<rparr> else h) in
      if nHits' = 0 then
        (if disjointHitSets h1 = [] then Inl (OutOfBounds DisjointHitSetsArray)
         else Inr (h1\<lparr>disjointHitSets :=
                       butlast (disjointHitSets h1) @ [last (disjointHitSets h1) + 1]\<rparr>))
      else
        (case trim_hits hits' seedOffset' (nat nHits') of
           Inl e \<Rightarrow> Inl e
         | Inr n \<Rightarrow>
             Inr (h1\<lparr>lookups := lookups h1 @
                       [\<lparr>hits = hits', nHits = int n, currentHitForIntersection = 0,
                         lookupSeedOffset = seedOffset',
                         whichDisjointHitSet = int (length (disjointHitSets h1)) - 1\<rparr>]\<rparr>)))"

text \<open>
  Modelled from the spec: \<^verbatim>\<open>IsSeedUsed\<close> and \<^verbatim>\<open>SetSeedUsed\<close> are defined in the header,
  which is not part of the sources; the specification has them "mark a bitmap of used
  offsets". The bitmap is the list of the offsets marked.
\<close>

definition IsSeedUsed :: "nat list \<Rightarrow> nat \<Rightarrow> bool" where
  "IsSeedUsed seedUsed i = (i \<in> set seedUsed)"

definition SetSeedUsed :: "nat list \<Rightarrow> nat \<Rightarrow> nat list" where
  "SetSeedUsed seedUsed i = i # seedUsed"

text \<open>The inner loop of lines 309-314: skip the seeds already used.\<close>

function skip_used :: "nat list \<Rightarrow> nat \<Rightarrow> nat \<Rightarrow> nat" where
  "skip_used seedUsed nPossibleSeeds nextSeedToTest =
     (if nextSeedToTest < nPossibleSeeds \<and> IsSeedUsed seedUsed nextSeedToTest
      then skip_used seedUsed nPossibleSeeds (nextSeedToTest + 1)
      else nextSeedToTest)"
  by pat_completeness auto
termination
  by (relation "measure (\<lambda>(u, n, i). n - i)") auto

declare skip_used.simps [simp del]

text \<open>
  The variables of the lookup loop of one read (lines 289-293) with the members it
  updates.
\<close>

record seed_loop_state =
  nextSeedToTest :: nat
  wrapCount :: nat
  seedUsed :: "nat list"
  beginsDisjointHitSet :: "bool list"
  members :: seeding

text \<open>
  The \<^verbatim>\<open>for\<close> loop over the two directions (lines 350-371) for the seed at
  \<open>nextSeedToTest\<close>: a hit list shorter than \<^verbatim>\<open>maxBigHits\<close> is recorded at the offset the
  seed has in that direction, a longer one counts as a popular seed.
\<close>

definition record_direction ::
  "config \<Rightarrow> nat \<Rightarrow> nat \<Rightarrow> nat \<Rightarrow> hit_array \<Rightarrow> seed_loop_state \<Rightarrow> error + seed_loop_state"
where
  "record_direction cfg whichRead readLen dir hits' ls =
     (let m = members ls;
          offset = (if dir = FORWARD then nextSeedToTest ls
                    else readLen - seedLen cfg - nextSeedToTest ls)
      in if length (entries hits') < maxBigHits cfg then
           (case recordLookup (hashTableHitSets m ! whichRead ! dir) (of_nat offset)
                   (int (length (entries hits'))) hits' (beginsDisjointHitSet ls ! dir) of
              Inl e \<Rightarrow> Inl e
            | Inr h' \<Rightarrow>
                Inr (ls\<lparr>beginsDisjointHitSet := (beginsDisjointHitSet ls)[dir := False],
                        members := m\<lparr>
                          totalHashTableHits := (totalHashTableHits m)
                            [whichRead := (totalHashTableHits m ! whichRead)
                               [dir := totalHashTableHits m ! whichRead ! dir
                                         + int (length (entries hits'))]],
                          hashTableHitSets := (hashTableHitSets m)
                            [whichRead := (hashTableHitSets m ! whichRead)[dir := h']]\<rparr>\<rparr>))
         else Inr (ls\<lparr>members := m\<lparr>popularSeedsSkipped :=
                         (popularSeedsSkipped m)[whichRead := popularSeedsSkipped m ! whichRead + 1]\<rparr>\<rparr>))"

text \<open>
  Lines 333-383: the seed at \<open>nextSeedToTest\<close> is looked up in the index, the lookup is
  counted, both directions are recorded, and \<open>nextSeedToTest\<close> moves on: by the even
  spacing of the remaining seeds where they do not reach the end of the read, and by
  \<^verbatim>\<open>seedLen\<close> otherwise.
\<close>

definition seed_lookup ::
  "config \<Rightarrow> genome_index \<Rightarrow> nat \<Rightarrow> nat \<Rightarrow> string \<Rightarrow> nat \<Rightarrow> seed_loop_state
   \<Rightarrow> error + seed_loop_state"
where
  "seed_lookup cfg idx maxSeeds whichRead data nPossibleSeeds ls =
     (let (hitsForward, hitsRC) =
            lookupSeed idx (take (seedLen cfg) (drop (nextSeedToTest ls) data));
          m = members ls;
          count' = countOfHashTableLookups m ! whichRead + 1;
          ls1 = ls\<lparr>members := m\<lparr>
                  countOfHashTableLookups := (countOfHashTableLookups m)[whichRead := count'],
                  seedLookups := (whichRead, nextSeedToTest ls) # seedLookups m\<rparr>\<rparr>
      in case record_direction cfg whichRead (length data) FORWARD hitsForward ls1 of
           Inl e \<Rightarrow> Inl e
         | Inr ls2 \<Rightarrow>
             (case record_direction cfg whichRead (length data) RC hitsRC ls2 of
                Inl e \<Rightarrow> Inl e
              | Inr ls3 \<Rightarrow>
                  Inr (ls3\<lparr>nextSeedToTest :=
                         (if (maxSeeds - count' + 1) * seedLen cfg + nextSeedToTest ls3
                               < nPossibleSeeds
                          then nextSeedToTest ls3
                                 + (nPossibleSeeds - nextSeedToTest ls3 - 1)
                                     div (maxSeeds - count' + 1)
                          else nextSeedToTest ls3 + seedLen cfg)\<rparr>)))"

text \<open>
  One pass of the \<^verbatim>\<open>while\<close> loop of lines 295-384, in two parts. \<open>seed_wrap\<close> is the
  wrap-around of lines 296-306: it ends the loop (\<^verbatim>\<open>break\<close>) when the read has been
  wrapped around \<^verbatim>\<open>seedLen\<close> times. \<open>seed_try\<close> is the rest of the pass: it skips the
  used seeds, goes on to the next pass when that leads past the last seed
  (\<^verbatim>\<open>continue\<close>), marks the seed as used, skips it when its text is not a seed
  (\<^verbatim>\<open>continue\<close>), and looks it up.
\<close>

datatype 'a pass = Continue 'a | Break 'a

definition seed_wrap :: "config \<Rightarrow> genome_index \<Rightarrow> nat \<Rightarrow> seed_loop_state \<Rightarrow> seed_loop_state pass" where
  "seed_wrap cfg idx nPossibleSeeds ls =
     (if nPossibleSeeds \<le> nextSeedToTest ls then
        (let ls1 = ls\<lparr>wrapCount := wrapCount ls + 1, beginsDisjointHitSet := [True, True]\<rparr> in
         if seedLen cfg \<le> wrapCount ls1 then Break ls1
         else Continue (ls1\<lparr>nextSeedToTest :=
                              GetWrappedNextSeedToTest idx (seedLen cfg) (wrapCount ls1)\<rparr>))
      else Continue ls)"

definition seed_try ::
  "config \<Rightarrow> genome_index \<Rightarrow> nat \<Rightarrow> nat \<Rightarrow> string \<Rightarrow> nat \<Rightarrow> seed_loop_state
   \<Rightarrow> error + seed_loop_state pass"
where
  "seed_try cfg idx maxSeeds whichRead data nPossibleSeeds ls =
     (let ls1 = ls\<lparr>nextSeedToTest :=
                    skip_used (seedUsed ls) nPossibleSeeds (nextSeedToTest ls)\<rparr>
      in if nPossibleSeeds \<le> nextSeedToTest ls1 then Inr (Continue ls1)
         else
           (let ls2 = ls1\<lparr>seedUsed := SetSeedUsed (seedUsed ls1) (nextSeedToTest ls1)\<rparr>
            in if \<not> DoesTextRepresentASeed idx
                      (take (seedLen cfg) (drop (nextSeedToTest ls2) data))
               then Inr (Continue (ls2\<lparr>nextSeedToTest := nextSeedToTest ls2 + 1\<rparr>))
               else
                 (case seed_lookup cfg idx maxSeeds whichRead data nPossibleSeeds ls2 of
                    Inl e \<Rightarrow> Inl e
                  | Inr ls3 \<Rightarrow> Inr (Continue ls3))))"

definition seed_pass ::
  "config \<Rightarrow> genome_index \<Rightarrow> nat \<Rightarrow> nat \<Rightarrow> string \<Rightarrow> nat \<Rightarrow> seed_loop_state
   \<Rightarrow> error + seed_loop_state pass"
where
  "seed_pass cfg idx maxSeeds whichRead data nPossibleSeeds ls =
     (case seed_wrap cfg idx nPossibleSeeds ls of
        Break ls1 \<Rightarrow> Inr (Break ls1)
      | Continue ls1 \<Rightarrow> seed_try cfg idx maxSeeds whichRead data nPossibleSeeds ls1)"

section \<open>Candidates, mates and the per-pair state\<close>

text \<open>
  \<^verbatim>\<open>ScoringMateCandidate\<close> and \<^verbatim>\<open>ScoringCandidate\<close>, with the fields this file reads and
  writes. Where both structures have a field of the same name the mate's is prefixed.
  \<open>mergeAnchor\<close> is a pointer into \<^verbatim>\<open>mergeAnchorPool\<close> (\<open>None\<close> is \<^verbatim>\<open>NULL\<close>). The
  \<^verbatim>\<open>scoreListNext\<close> pointer is not a field here: the score list it threads is a list of
  pool indices (see \<open>scoringCandidates\<close> below).
\<close>

record ScoringMateCandidate =
  readWithMoreHitsGenomeLocation :: GenomeLocation
  mateBestPossibleScore :: u32
  mateSeedOffset :: u32
  mateScore :: u32
  mateScoreLimit :: u32
  mateMatchProbability :: prob
  genomeOffset :: int

record ScoringCandidate =
  readWithFewerHitsGenomeLocation :: GenomeLocation
  whichSetPair :: nat
  scoringMateCandidateIndex :: u32
  seedOffset :: u32
  bestPossibleScore :: u32
  candClusterIdx :: int
  fewerEndScore :: u32
  fewerEndGenomeLocationOffset :: int
  mergeAnchor :: "nat option"

text \<open>
  What the file calls but does not define. The genome's \<^verbatim>\<open>getSubstring\<close> (only whether it
  returns \<^verbatim>\<open>NULL\<close> for the read, direction and location), the two Landau-Vishkin
  edit-distance computations (by read, direction, location, seed offset and limit; the
  reverse one also yields the genome location offset), \<^verbatim>\<open>pow(1 - SNP_PROB, seedLen)\<close>,
  the constant \<^verbatim>\<open>InvalidGenomeLocation\<close> and \<^verbatim>\<open>MergeAnchor::doesRangeMatch\<close> are
  parameters of the model. So are the machine's rounded sum and product of two
  \<^verbatim>\<open>double\<close>s, \<open>doublePlus\<close> and \<open>doubleTimes\<close>: the sources fix neither the rounding
  mode nor the precision of intermediate results.
\<close>

record externals =
  InvalidGenomeLocation :: GenomeLocation
  doesRangeMatch :: "MergeAnchor \<Rightarrow> GenomeLocation \<Rightarrow> GenomeLocation \<Rightarrow> bool"
  substringAvailable :: "nat \<Rightarrow> nat \<Rightarrow> GenomeLocation \<Rightarrow> bool"
  forwardLV :: "nat \<Rightarrow> nat \<Rightarrow> GenomeLocation \<Rightarrow> u32 \<Rightarrow> u32 \<Rightarrow> u32 \<times> prob"
  reverseLV :: "nat \<Rightarrow> nat \<Rightarrow> GenomeLocation \<Rightarrow> u32 \<Rightarrow> u32 \<Rightarrow> u32 \<times> prob \<times> int"
  seedProbability :: prob
  doublePlus :: "prob \<Rightarrow> prob \<Rightarrow> prob"
  doubleTimes :: "prob \<Rightarrow> prob \<Rightarrow> prob"

text \<open>
  The per-pair state of the aligner that phases 2 and 3 share.
  \<^item> \<open>scoringCandidates\<close>: the array of score lists, indexed by best possible score;
    list \<open>k\<close> holds the pool indices of its candidates, head first (the chain of
    \<^verbatim>\<open>scoreListNext\<close> pointers starting at \<^verbatim>\<open>scoringCandidates[k]\<close>).
  \<^item> \<open>scoringCandidatePool\<close>, \<open>scoringMateCandidates\<close> (one list per set pair) and
    \<open>mergeAnchorPool\<close>: the allocated entries of each pool, so the free index
    (\<^verbatim>\<open>lowestFreeScoringCandidatePoolEntry\<close>, \<^verbatim>\<open>lowestFreeScoringMateCandidate\<close>,
    \<^verbatim>\<open>firstFreeMergeAnchor\<close>) is the length. Reading an entry that was never allocated
    is an \<open>OutOfBounds\<close> error of the model.
\<close>

record aligner =
  readWithFewerHits :: nat
  scoringCandidates :: "nat list list"
  scoringCandidatePool :: "ScoringCandidate list"
  scoringMateCandidates :: "ScoringMateCandidate list list"
  mergeAnchorPool :: "MergeAnchor list"
  maxUsedBestPossibleScoreList :: u32
  nLocationsScored :: nat

definition readWithMoreHits :: "aligner \<Rightarrow> nat" where
  "readWithMoreHits st = 1 - readWithFewerHits st"

definition mate_at :: "aligner \<Rightarrow> nat \<Rightarrow> nat \<Rightarrow> ScoringMateCandidate option" where
  "mate_at st whichSetPair' mateIndex =
     (if whichSetPair' < length (scoringMateCandidates st)
         \<and> mateIndex < length (scoringMateCandidates st ! whichSetPair')
      then Some (scoringMateCandidates st ! whichSetPair' ! mateIndex) else None)"

definition set_mate :: "aligner \<Rightarrow> nat \<Rightarrow> nat \<Rightarrow> ScoringMateCandidate \<Rightarrow> aligner" where
  "set_mate st whichSetPair' mateIndex m =
     st\<lparr>scoringMateCandidates :=
          (scoringMateCandidates st)[whichSetPair' := (scoringMateCandidates st ! whichSetPair')[mateIndex := m]]\<rparr>"

section \<open>Phase 1: the entry point\<close>

text \<open>
  The \<^verbatim>\<open>while\<close> loop of lines 295-384: passes are made as long as fewer than
  \<^verbatim>\<open>nPossibleSeeds\<close> and fewer than \<^verbatim>\<open>maxSeeds\<close> lookups were counted for the read, and
  until a pass ends the loop. (Its termination is proved with the properties of
  phase 1.)
\<close>

function seed_loop ::
  "config \<Rightarrow> genome_index \<Rightarrow> nat \<Rightarrow> nat \<Rightarrow> string \<Rightarrow> nat \<Rightarrow> seed_loop_state
   \<Rightarrow> error + seed_loop_state"
where
  "seed_loop cfg idx maxSeeds whichRead data nPossibleSeeds ls =
     (if countOfHashTableLookups (members ls) ! whichRead < nPossibleSeeds
         \<and> countOfHashTableLookups (members ls) ! whichRead < maxSeeds
      then
        (case seed_pass cfg idx maxSeeds whichRead data nPossibleSeeds ls of
           Inl e \<Rightarrow> Inl e
         | Inr (Break ls') \<Rightarrow> Inr ls'
         | Inr (Continue ls') \<Rightarrow> seed_loop cfg idx maxSeeds whichRead data nPossibleSeeds ls')
      else Inr ls)"
  by pat_completeness auto

text \<open>
  The measure of that loop: the seeds of the read not yet marked as used.
\<close>

definition unused :: "nat \<Rightarrow> seed_loop_state \<Rightarrow> nat" where
  "unused nPossibleSeeds ls = card ({0..<nPossibleSeeds} - set (seedUsed ls))"

text \<open>
  The body of the loop over the reads of lines 288-385, for one read: the loop variables
  are initialised and the lookups are made. Both reads are at least \<^verbatim>\<open>seedLen\<close> long
  here.
\<close>

definition seed_read ::
  "config \<Rightarrow> genome_index \<Rightarrow> nat \<Rightarrow> nat \<Rightarrow> string \<Rightarrow> seeding \<Rightarrow> error + seeding"
where
  "seed_read cfg idx maxSeeds whichRead data m =
     (case seed_loop cfg idx maxSeeds whichRead data (length data - seedLen cfg + 1)
             \<lparr>nextSeedToTest = 0, wrapCount = 0, seedUsed = [],
              beginsDisjointHitSet = [True, True], members = m\<rparr> of
        Inl e \<Rightarrow> Inl e
      | Inr ls \<Rightarrow> Inr (members ls))"

text \<open>
  The per-read part of the loop of lines 235-264 that the model keeps: the counters of
  the read are zeroed and its two hit sets are initialised.
\<close>

definition reset_read :: "nat \<Rightarrow> seeding \<Rightarrow> seeding" where
  "reset_read whichRead m =
     m\<lparr>popularSeedsSkipped := (popularSeedsSkipped m)[whichRead := 0],
       countOfHashTableLookups := (countOfHashTableLookups m)[whichRead := 0],
       totalHashTableHits := (totalHashTableHits m)[whichRead := [0, 0]],
       hashTableHitSets := (hashTableHitSets m)
         [whichRead := map init_hit_set (hashTableHitSets m ! whichRead)]\<rparr>"

text \<open>\<^verbatim>\<open>nTable\<close> counts the base \<^verbatim>\<open>N\<close> (lines 85-89, 260).\<close>

definition countNs :: "string \<Rightarrow> nat" where
  "countNs data = length (filter (\<lambda>c. c = CHR ''N'') data)"

text \<open>
  \<^verbatim>\<open>align_phase_1\<close> (lines 191-398): the value returned (true is the early exit), the
  aligner and the members of phase 1.
  \<^item> \<^verbatim>\<open>maxSeeds\<close> is the command-line number of seeds or, when that is 0, the number
    that \<^verbatim>\<open>seedCoverage\<close> gives for the longer read.
  \<^item> The pools are emptied and every score list is reset; the array of score lists is the
    one \<^verbatim>\<open>allocateDynamicMemory\<close> allocates, with \<^verbatim>\<open>maxK + extraSearchDepth + 1\<close>
    entries (line 156), all of which the loop of lines 209-212 resets.
  \<^item> A read longer than \<^verbatim>\<open>maxReadSize\<close> ends the process (\<^verbatim>\<open>soft_exit\<close>); read 0 is
    checked, and its bases counted, before read 1.
\<close>

definition align_phase_1 ::
  "config \<Rightarrow> genome_index \<Rightarrow> Read \<Rightarrow> Read \<Rightarrow> aligner \<times> seeding \<Rightarrow> error + bool \<times> aligner \<times> seeding"
where
  "align_phase_1 cfg idx read0 read1 s =
     (case s of (st, m) \<Rightarrow>
      let len0 = length (readData read0);
          len1 = length (readData read1);
          maxSeeds =
            (if numSeedsFromCommandLine cfg \<noteq> 0 then numSeedsFromCommandLine cfg
             else seedsForCoverage cfg (max len0 len1));
          st1 = st\<lparr>scoringCandidatePool := [],
                   scoringCandidates :=
                     replicate (unat (maxK cfg + extraSearchDepth cfg) + 1) [],
                   scoringMateCandidates := [[], []],
                   mergeAnchorPool := []\<rparr>;
          m0 = m\<lparr>seedLookups := []\<rparr>
      in if len0 < seedLen cfg \<or> len1 < seedLen cfg then Inr (True, st1, m0)
         else if maxReadSize cfg < len0 then Inl ReadTooBig
         else if maxReadSize cfg < len1 then Inl ReadTooBig
         else
           (let m1 = reset_read 1 (reset_read 0 m0);
                countOfNs = countNs (readData read0) + countNs (readData read1)
            in if unat (maxK cfg) < countOfNs then Inr (True, st1, m1)
               else
                 (case seed_read cfg idx maxSeeds 0 (readData read0) m1 of
                    Inl e \<Rightarrow> Inl e
                  | Inr m2 \<Rightarrow>
                      (case seed_read cfg idx maxSeeds 1 (readData read1) m2 of
                         Inl e \<Rightarrow> Inl e
                       | Inr m3 \<Rightarrow>
                           (let more =
                                  (if totalHashTableHits m3 ! 0 ! FORWARD + totalHashTableHits m3 ! 0 ! RC
                                        > totalHashTableHits m3 ! 1 ! FORWARD + totalHashTableHits m3 ! 1 ! RC
                                   then 0 else 1)
                            in Inr (False, st1\<lparr>readWithFewerHits := 1 - more\<rparr>, m3))))))"

text \<open>
  The hit sets of the set pairs as the constructor links them (lines 96-99):
  \<^verbatim>\<open>setPair[0] = {read 0 FORWARD, read 1 RC}\<close> and \<^verbatim>\<open>setPair[1] = {read 0 RC, read 1 FORWARD}\<close>.
\<close>

definition set_pairs_of :: "seeding \<Rightarrow> HashTableHitSet list list" where
  "set_pairs_of m =
     [[hashTableHitSets m ! 0 ! FORWARD, hashTableHitSets m ! 1 ! RC],
      [hashTableHitSets m ! 0 ! RC, hashTableHitSets m ! 1 ! FORWARD]]"

section \<open>Phase 2: candidate enumeration\<close>

text \<open>
  The members of the aligner that phase 2 walks with: \<^verbatim>\<open>setPair\<close> (the hit set of each
  set pair and read; the four hit sets are distinct objects) and the cursors, each an
  array indexed by the set pair.
\<close>

record descent =
  setPair :: "HashTableHitSet list list"
  lastGenomeLocationForReadWithMoreHits :: "GenomeLocation list"
  lastGenomeLocationForReadWithFewerHits :: "GenomeLocation list"
  lastSeedOffsetForReadWithMoreHits :: "u32 list"
  lastSeedOffsetForReadWithFewerHits :: "u32 list"
  outOfMoreHitsLocations :: "bool list"
  noMoreLocus :: "bool list"

definition set_hit_set :: "descent \<Rightarrow> nat \<Rightarrow> nat \<Rightarrow> HashTableHitSet \<Rightarrow> descent" where
  "set_hit_set d whichSetPair' whichRead h =
     d\<lparr>setPair := (setPair d)[whichSetPair' := (setPair d ! whichSetPair')[whichRead := h]]\<rparr>"

text \<open>
  Modelled from the spec: \<^verbatim>\<open>ScoringMateCandidate::init\<close> and \<^verbatim>\<open>ScoringCandidate::init\<close>
  are defined in the header, which is not part of the sources. They store their
  arguments; a new mate has the score \<open>- 2\<close> that \<^verbatim>\<open>align_phase_3_score\<close> reads as "not
  yet scored", a new candidate has no merge anchor. The fields that scoring writes
  before it reads them start as 0 here.
\<close>

definition init_mate :: "GenomeLocation \<Rightarrow> u32 \<Rightarrow> u32 \<Rightarrow> ScoringMateCandidate" where
  "init_mate readWithMoreHitsGenomeLocation' bestPossibleScore' seedOffset' =
     \<lparr>readWithMoreHitsGenomeLocation = readWithMoreHitsGenomeLocation',
      mateBestPossibleScore = bestPossibleScore', mateSeedOffset = seedOffset',
      mateScore = - 2, mateScoreLimit = 0, mateMatchProbability = 0, genomeOffset = 0\<rparr>"

definition init_candidate ::
  "GenomeLocation \<Rightarrow> nat \<Rightarrow> u32 \<Rightarrow> u32 \<Rightarrow> u32 \<Rightarrow> int \<Rightarrow> ScoringCandidate"
where
  "init_candidate readWithFewerHitsGenomeLocation' whichSetPair' scoringMateCandidateIndex'
     seedOffset' bestPossibleScore' clusterIdx' =
     \<lparr>readWithFewerHitsGenomeLocation = readWithFewerHitsGenomeLocation',
      whichSetPair = whichSetPair', scoringMateCandidateIndex = scoringMateCandidateIndex',
      seedOffset = seedOffset', bestPossibleScore = bestPossibleScore',
      candClusterIdx = clusterIdx', fewerEndScore = 0, fewerEndGenomeLocationOffset = 0,
      mergeAnchor = None\<rparr>"

text \<open>
  \<^verbatim>\<open>align_phase_2_move_locus\<close> (lines 401-449): the value returned (1, -1 or 0) and the
  cursors. A set pair outside \<open>{0, 1}\<close> would index outside the arrays.
\<close>

definition align_phase_2_move_locus ::
  "config \<Rightarrow> nat \<Rightarrow> descent \<times> aligner \<Rightarrow> error + int \<times> descent"
where
  "align_phase_2_move_locus cfg sp s =
     (case s of (d, st) \<Rightarrow>
      if 2 \<le> sp \<or> 2 \<le> readWithFewerHits st then Inl (OutOfBounds SetPairArrays)
      else
        (let moved =
           (if lastGenomeLocationForReadWithMoreHits d ! sp
                > lastGenomeLocationForReadWithFewerHits d ! sp + uint (maxSpacing cfg)
            then
              (case getNextHitLessThanOrEqualTo (setPair d ! sp ! readWithMoreHits st)
                      (lastGenomeLocationForReadWithFewerHits d ! sp + uint (maxSpacing cfg))
                      (lastGenomeLocationForReadWithMoreHits d ! sp)
                      (lastSeedOffsetForReadWithMoreHits d ! sp) of
                 Inl e \<Rightarrow> Inl e
               | Inr (found, location', seedOffset', h') \<Rightarrow>
                   Inr (found,
                        (set_hit_set d sp (readWithMoreHits st) h')
                          \<lparr>lastGenomeLocationForReadWithMoreHits :=
                             (lastGenomeLocationForReadWithMoreHits d)[sp := location'],
                           lastSeedOffsetForReadWithMoreHits :=
                             (lastSeedOffsetForReadWithMoreHits d)[sp := seedOffset']\<rparr>))
            else Inr (True, d))
         in case moved of
              Inl e \<Rightarrow> Inl e
            | Inr (False, d1) \<Rightarrow> Inr (1, d1)
            | Inr (True, d1) \<Rightarrow>
                if (lastGenomeLocationForReadWithMoreHits d1 ! sp + uint (maxSpacing cfg)
                      < lastGenomeLocationForReadWithFewerHits d1 ! sp
                    \<or> outOfMoreHitsLocations d1 ! sp)
                   \<and> (length (scoringMateCandidates st ! sp) = 0
                       \<or> \<not> genomeLocationIsWithin
                              (readWithMoreHitsGenomeLocation (last (scoringMateCandidates st ! sp)))
                              (lastGenomeLocationForReadWithFewerHits d1 ! sp)
                              (uint (maxSpacing cfg)))
                then
                  (if outOfMoreHitsLocations d1 ! sp then Inr (1, d1)
                   else
                     (case getNextHitLessThanOrEqualTo (setPair d1 ! sp ! readWithFewerHits st)
                             (lastGenomeLocationForReadWithMoreHits d1 ! sp + uint (maxSpacing cfg))
                             (lastGenomeLocationForReadWithFewerHits d1 ! sp)
                             (lastSeedOffsetForReadWithFewerHits d1 ! sp) of
                        Inl e \<Rightarrow> Inl e
                      | Inr (found, location', seedOffset', h') \<Rightarrow>
                          Inr (if found then - 1 else 1,
                               (set_hit_set d1 sp (readWithFewerHits st) h')
                                 \<lparr>lastGenomeLocationForReadWithFewerHits :=
                                    (lastGenomeLocationForReadWithFewerHits d1)[sp := location'],
                                  lastSeedOffsetForReadWithFewerHits :=
                                    (lastSeedOffsetForReadWithFewerHits d1)[sp := seedOffset']\<rparr>)))
                else Inr (0, d1)))"

text \<open>
  The first loop of \<^verbatim>\<open>align_phase_2_single_step_add_candidate\<close> (lines 458-490): the
  mates of the current hit of the read with fewer hits. Every pass takes an entry of the
  mate pool, whose size bounds the number of passes.
\<close>

function add_mates :: "config \<Rightarrow> nat \<Rightarrow> descent \<times> aligner \<Rightarrow> error + descent \<times> aligner" where
  "add_mates cfg sp s =
     (case s of (d, st) \<Rightarrow>
      if lastGenomeLocationForReadWithMoreHits d ! sp + uint (maxSpacing cfg)
           \<ge> lastGenomeLocationForReadWithFewerHits d ! sp
         \<and> \<not> outOfMoreHitsLocations d ! sp
      then
        (case (if noTruncation cfg then Inr 0
               else computeBestPossibleScoreForCurrentHit (setPair d ! sp ! readWithMoreHits st)) of
           Inl e \<Rightarrow> Inl e
         | Inr bestPossibleScoreForReadWithMoreHits \<Rightarrow>
             if length (scoringMateCandidates st) \<le> sp then Inl (OutOfBounds SetPairArrays)
             else if scoringCandidatePoolSize cfg div 2 \<le> length (scoringMateCandidates st ! sp)
             then Inl PoolExhausted
             else
               (let st1 = st\<lparr>scoringMateCandidates := (scoringMateCandidates st)
                            [sp := scoringMateCandidates st ! sp @
                               [init_mate (lastGenomeLocationForReadWithMoreHits d ! sp)
                                  bestPossibleScoreForReadWithMoreHits
                                  (lastSeedOffsetForReadWithMoreHits d ! sp)]]\<rparr>
                in case getNextLowerHit (setPair d ! sp ! readWithMoreHits st)
                          (lastGenomeLocationForReadWithMoreHits d ! sp)
                          (lastSeedOffsetForReadWithMoreHits d ! sp) of
                     Inl e \<Rightarrow> Inl e
                   | Inr (found, location', seedOffset', h') \<Rightarrow>
                       (let d1 = (set_hit_set d sp (readWithMoreHits st) h')
                                   \<lparr>lastGenomeLocationForReadWithMoreHits :=
                                      (lastGenomeLocationForReadWithMoreHits d)[sp := location'],
                                    lastSeedOffsetForReadWithMoreHits :=
                                      (lastSeedOffsetForReadWithMoreHits d)[sp := seedOffset']\<rparr>
                        in if \<not> found
                           then Inr (d1\<lparr>lastGenomeLocationForReadWithMoreHits :=
                                          (lastGenomeLocationForReadWithMoreHits d1)[sp := 0],
                                        outOfMoreHitsLocations :=
                                          (outOfMoreHitsLocations d1)[sp := True]\<rparr>, st1)
                           else add_mates cfg sp (d1, st1))))
      else Inr (d, st))"
  by pat_completeness auto
termination
  by (relation "measure (\<lambda>(cfg, sp, d, st).
        scoringCandidatePoolSize cfg div 2 - length (scoringMateCandidates st ! sp))")
     auto

declare add_mates.simps [simp del]

text \<open>
  The scan of lines 505-511 over the mate candidates from the last one down, as long as
  they are not above the window of the current hit.
\<close>

fun lowest_best_possible :: "GenomeLocation \<Rightarrow> ScoringMateCandidate list \<Rightarrow> u32 \<Rightarrow> u32" where
  "lowest_best_possible upper [] lowestBestPossibleScoreOfAnyPossibleMate =
     lowestBestPossibleScoreOfAnyPossibleMate"
| "lowest_best_possible upper (m # ms) lowestBestPossibleScoreOfAnyPossibleMate =
     (if readWithMoreHitsGenomeLocation m > upper then lowestBestPossibleScoreOfAnyPossibleMate
      else lowest_best_possible upper ms
             (min lowestBestPossibleScoreOfAnyPossibleMate (mateBestPossibleScore m)))"

text \<open>
  The rest of \<^verbatim>\<open>align_phase_2_single_step_add_candidate\<close> (lines 492-563): the candidate
  for the current hit of the read with fewer hits is put at the head of the score list
  \<^verbatim>\<open>scoringCandidates[bestPossibleScore]\<close>, and the read with fewer hits moves to its
  next lower hit. The value returned is true when there is none.
\<close>

definition align_phase_2_single_step_add_candidate ::
  "config \<Rightarrow> nat \<Rightarrow> int \<Rightarrow> descent \<times> aligner \<Rightarrow> error + bool \<times> descent \<times> aligner"
where
  "align_phase_2_single_step_add_candidate cfg sp clusterIdx' s =
     (if 2 \<le> sp \<or> 2 \<le> readWithFewerHits (snd s) then Inl (OutOfBounds SetPairArrays)
      else
      case add_mates cfg sp s of
        Inl e \<Rightarrow> Inl e
      | Inr (d, st) \<Rightarrow>
          (case (if noTruncation cfg then Inr 0
                 else computeBestPossibleScoreForCurrentHit (setPair d ! sp ! readWithFewerHits st)) of
             Inl e \<Rightarrow> Inl e
           | Inr bestPossibleScoreForReadWithFewerHits \<Rightarrow>
               (let lowestBestPossibleScoreOfAnyPossibleMate =
                      lowest_best_possible
                        (lastGenomeLocationForReadWithFewerHits d ! sp + uint (maxSpacing cfg))
                        (rev (scoringMateCandidates st ! sp))
                        (maxK cfg + extraSearchDepth cfg);
                    inserted =
                      (if lowestBestPossibleScoreOfAnyPossibleMate + bestPossibleScoreForReadWithFewerHits
                            \<le> maxK cfg + extraSearchDepth cfg
                       then
                         (if scoringCandidatePoolSize cfg \<le> length (scoringCandidatePool st)
                          then Inl PoolExhausted
                          else
                            (let clusterScorePenalty =
                                   (if clusterIdx' = - 1 then clusterEDCompensation cfg else 0);
                                 bestPossibleScore' =
                                   (if noOrderedEvaluation cfg then 0
                                    else lowestBestPossibleScoreOfAnyPossibleMate
                                           + bestPossibleScoreForReadWithFewerHits
                                           + clusterScorePenalty)
                             in if length (scoringCandidates st) \<le> unat bestPossibleScore'
                                then Inl (OutOfBounds ScoringCandidatesArray)
                                else Inr (st\<lparr>scoringCandidatePool := scoringCandidatePool st @
                                               [init_candidate
                                                  (lastGenomeLocationForReadWithFewerHits d ! sp) sp
                                                  (of_nat (length (scoringMateCandidates st ! sp)) - 1)
                                                  (lastSeedOffsetForReadWithFewerHits d ! sp)
                                                  bestPossibleScoreForReadWithFewerHits clusterIdx'],
                                             scoringCandidates := (scoringCandidates st)
                                               [unat bestPossibleScore' :=
                                                  length (scoringCandidatePool st)
                                                    # scoringCandidates st ! unat bestPossibleScore'],
                                             maxUsedBestPossibleScoreList :=
                                               max (maxUsedBestPossibleScoreList st) bestPossibleScore'\<rparr>)))
                       else Inr st)
                in case inserted of
                     Inl e \<Rightarrow> Inl e
                   | Inr st1 \<Rightarrow>
                       (case getNextLowerHit (setPair d ! sp ! readWithFewerHits st)
                               (lastGenomeLocationForReadWithFewerHits d ! sp)
                               (lastSeedOffsetForReadWithFewerHits d ! sp) of
                          Inl e \<Rightarrow> Inl e
                        | Inr (found, location', seedOffset', h') \<Rightarrow>
                            Inr (\<not> found,
                                 (set_hit_set d sp (readWithFewerHits st) h')
                                   \<lparr>lastGenomeLocationForReadWithFewerHits :=
                                      (lastGenomeLocationForReadWithFewerHits d)[sp := location'],
                                    lastSeedOffsetForReadWithFewerHits :=
                                      (lastSeedOffsetForReadWithFewerHits d)[sp := seedOffset']\<rparr>,
                                 st1)))))"

text \<open>
  One pass of the \<^verbatim>\<open>for\<close> loop inside the \<^verbatim>\<open>while\<close> loop of
  \<^verbatim>\<open>align_phase_2_to_target_loc\<close> (lines 601-642), for set pair \<open>sp\<close>, on
  \<^verbatim>\<open>keepGoing\<close>, \<^verbatim>\<open>targetNotMet\<close> and the state.
\<close>

definition to_target_step ::
  "config \<Rightarrow> GenomeLocation \<Rightarrow> int \<Rightarrow> nat \<Rightarrow> bool \<times> bool \<times> descent \<times> aligner
   \<Rightarrow> error + bool \<times> bool \<times> descent \<times> aligner"
where
  "to_target_step cfg clusterTargetLoc clusterIdx' sp s =
     (case s of (keepGoing, targetNotMet, d, st) \<Rightarrow>
      if length (noMoreLocus d) \<le> sp then Inl (OutOfBounds SetPairArrays)
      else if noMoreLocus d ! sp then Inr (keepGoing, targetNotMet, d, st)
      else
        (case align_phase_2_move_locus cfg sp (d, st) of
           Inl e \<Rightarrow> Inl e
         | Inr (check_range_result, d1) \<Rightarrow>
             if check_range_result = 1
             then Inr (keepGoing, targetNotMet, d1\<lparr>noMoreLocus := (noMoreLocus d1)[sp := True]\<rparr>, st)
             else if check_range_result = - 1
             then Inr (True, targetNotMet, d1\<lparr>noMoreLocus := (noMoreLocus d1)[sp := False]\<rparr>, st)
             else
               (let d2 = d1\<lparr>noMoreLocus := (noMoreLocus d1)[sp := False]\<rparr>;
                    targetNotMetSingleSet =
                      (lastGenomeLocationForReadWithFewerHits d2 ! sp > clusterTargetLoc)
                in if targetNotMetSingleSet
                   then
                     (case align_phase_2_single_step_add_candidate cfg sp clusterIdx' (d2, st) of
                        Inl e \<Rightarrow> Inl e
                      | Inr (noMore, d3, st3) \<Rightarrow>
                          Inr (keepGoing \<or> \<not> noMore, True,
                               d3\<lparr>noMoreLocus := (noMoreLocus d3)[sp := noMore]\<rparr>, st3))
                   else Inr (keepGoing, targetNotMet, d2, st))))"

text \<open>
  The \<^verbatim>\<open>while (keepGoing && targetNotMet)\<close> loop (lines 599-643). Nothing in the source
  bounds the number of its passes for arbitrary hit lists, so the loop is a partial
  function: \<open>None\<close> is a loop that never ends.
\<close>

partial_function (option) to_target_loop ::
  "config \<Rightarrow> GenomeLocation \<Rightarrow> int \<Rightarrow> bool \<times> bool \<times> descent \<times> aligner
   \<Rightarrow> (error + bool \<times> descent \<times> aligner) option"
where
  "to_target_loop cfg clusterTargetLoc clusterIdx' s =
     (if fst s \<and> fst (snd s) then
        (case to_target_step cfg clusterTargetLoc clusterIdx' 0
                (False, fst (snd s), fst (snd (snd s)), snd (snd (snd s))) of
           Inl e \<Rightarrow> Some (Inl e)
         | Inr s0 \<Rightarrow>
             (case to_target_step cfg clusterTargetLoc clusterIdx' 1 s0 of
                Inl e \<Rightarrow> Some (Inl e)
              | Inr s1 \<Rightarrow> to_target_loop cfg clusterTargetLoc clusterIdx' s1))
      else Some (Inr (fst s, fst (snd (snd s)), snd (snd (snd s)))))"

declare to_target_loop.simps [code]

text \<open>
  \<^verbatim>\<open>align_phase_2_to_target_loc\<close> (lines 582-646): \<^verbatim>\<open>targetNotMet\<close> is first computed
  over the set pairs that still have a locus.
\<close>

definition align_phase_2_to_target_loc ::
  "config \<Rightarrow> GenomeLocation \<Rightarrow> int \<Rightarrow> descent \<times> aligner
   \<Rightarrow> (error + bool \<times> descent \<times> aligner) option"
where
  "align_phase_2_to_target_loc cfg clusterTargetLoc clusterIdx' s =
     (case s of (d, st) \<Rightarrow>
      if length (noMoreLocus d) < 2 \<or> length (lastGenomeLocationForReadWithFewerHits d) < 2
      then Some (Inl (OutOfBounds SetPairArrays))
      else
        (let targetNotMet =
               ((\<not> noMoreLocus d ! 0 \<and> lastGenomeLocationForReadWithFewerHits d ! 0 > clusterTargetLoc)
                \<or> (\<not> noMoreLocus d ! 1 \<and> lastGenomeLocationForReadWithFewerHits d ! 1 > clusterTargetLoc))
         in to_target_loop cfg clusterTargetLoc clusterIdx' (True, targetNotMet, d, st)))"

text \<open>
  One pass of the loop of \<^verbatim>\<open>align_phase_2_init\<close> (lines 668-682) and the function itself
  (lines 660-684).
\<close>

definition phase_2_init_step ::
  "externals \<Rightarrow> nat \<Rightarrow> bool \<times> descent \<times> aligner \<Rightarrow> error + bool \<times> descent \<times> aligner"
where
  "phase_2_init_step ext sp s =
     (case s of (keepGoing, d, st) \<Rightarrow>
      if length (setPair d) \<le> sp \<or> length (setPair d ! sp) \<le> readWithFewerHits st
         \<or> length (lastSeedOffsetForReadWithFewerHits d) \<le> sp
      then Inl (OutOfBounds SetPairArrays)
      else
        (case getFirstHit (setPair d ! sp ! readWithFewerHits st)
                (lastSeedOffsetForReadWithFewerHits d ! sp) of
           Inl e \<Rightarrow> Inl e
         | Inr (noHit, location', seedOffset', h') \<Rightarrow>
             Inr (keepGoing \<or> \<not> noHit,
                  (set_hit_set d sp (readWithFewerHits st) h')
                    \<lparr>lastGenomeLocationForReadWithMoreHits :=
                       (lastGenomeLocationForReadWithMoreHits d)[sp := InvalidGenomeLocation ext],
                     outOfMoreHitsLocations := (outOfMoreHitsLocations d)[sp := False],
                     lastGenomeLocationForReadWithFewerHits :=
                       (lastGenomeLocationForReadWithFewerHits d)[sp := location'],
                     lastSeedOffsetForReadWithFewerHits :=
                       (lastSeedOffsetForReadWithFewerHits d)[sp := seedOffset'],
                     noMoreLocus := (noMoreLocus d)[sp := noHit]\<rparr>,
                  st)))"

definition align_phase_2_init ::
  "externals \<Rightarrow> descent \<times> aligner \<Rightarrow> error + bool \<times> descent \<times> aligner"
where
  "align_phase_2_init ext s =
     (case s of (d, st) \<Rightarrow>
      case phase_2_init_step ext 0 (False, d, st\<lparr>maxUsedBestPossibleScoreList := 0\<rparr>) of
        Inl e \<Rightarrow> Inl e
      | Inr s0 \<Rightarrow> phase_2_init_step ext 1 s0)"

text \<open>
  \<^verbatim>\<open>align_phase_2\<close> (lines 687-702): the descent to target location 0 with cluster
  identifier \<open>- 1\<close>.
\<close>

definition align_phase_2 ::
  "config \<Rightarrow> externals \<Rightarrow> descent \<times> aligner \<Rightarrow> (error + descent \<times> aligner) option"
where
  "align_phase_2 cfg ext s =
     (case align_phase_2_init ext s of
        Inl e \<Rightarrow> Some (Inl e)
      | Inr (keepGoing, d, st) \<Rightarrow>
          if keepGoing
          then (case align_phase_2_to_target_loc cfg 0 (- 1) (d, st) of
                  None \<Rightarrow> None
                | Some (Inl e) \<Rightarrow> Some (Inl e)
                | Some (Inr (keepGoing', d', st')) \<Rightarrow> Some (Inr (d', st')))
          else Some (Inr (d, st)))"

section \<open>Phase 3: scoring\<close>

text \<open>
  \<^verbatim>\<open>setPairDirection\<close> of \<^verbatim>\<open>align_phase_3_score\<close>: \<^verbatim>\<open>{ {FORWARD, RC}, {RC, FORWARD} }\<close>.
\<close>

definition setPairDirection :: "nat \<Rightarrow> nat \<Rightarrow> nat" where
  "setPairDirection whichSetPair' whichRead = [[FORWARD, RC], [RC, FORWARD]] ! whichSetPair' ! whichRead"

text \<open>
  \<^verbatim>\<open>scoreLocation\<close> (lines 1360-1429). It returns what it leaves in \<^verbatim>\<open>*score\<close>,
  \<^verbatim>\<open>*matchProbability\<close> and \<^verbatim>\<open>*genomeLocationOffset\<close>; the last is written by the reverse
  computation only, so its old value is an argument.
\<close>

definition scoreLocation ::
  "externals \<Rightarrow> nat \<Rightarrow> nat \<Rightarrow> GenomeLocation \<Rightarrow> u32 \<Rightarrow> u32 \<Rightarrow> int \<Rightarrow> u32 \<times> prob \<times> int"
where
  "scoreLocation ext whichRead direction' genomeLocation seedOffset' scoreLimit genomeLocationOffset =
     (if \<not> substringAvailable ext whichRead direction' genomeLocation then (- 1, 0, genomeLocationOffset)
      else
        (let (score1, matchProb1) = forwardLV ext whichRead direction' genomeLocation seedOffset' scoreLimit in
         if score1 = - 1 then (- 1, 0, genomeLocationOffset)
         else
           (let limitLeft = scoreLimit - score1;
                (score2, matchProb2, offset') =
                   reverseLV ext whichRead direction' genomeLocation seedOffset' limitLeft
            in if score2 = - 1 then (- 1, 0, offset')
               else if score1 + score2 = - 1 then (score1 + score2, 0, offset')
               else (score1 + score2,
                     doubleTimes ext (doubleTimes ext matchProb1 matchProb2) (seedProbability ext),
                     offset'))))"

text \<open>
  Modelled from the spec: \<^verbatim>\<open>MergeAnchor::init\<close> is defined in the header, which is not
  part of the sources; it installs its arguments as the anchor's values, as the
  "no merge" branch of \<^verbatim>\<open>checkMerge\<close> does.
\<close>

definition new_anchor ::
  "GenomeLocation \<Rightarrow> GenomeLocation \<Rightarrow> prob \<Rightarrow> u32 \<Rightarrow> int \<Rightarrow> nat \<Rightarrow> nat \<Rightarrow> MergeAnchor"
where
  "new_anchor newMoreHitLocation newFewerHitLocation newMatchProbability newPairScore
     newClusterIdx newCandidate newMate =
     \<lparr>locationForReadWithMoreHits = newMoreHitLocation,
      locationForReadWithFewerHits = newFewerHitLocation,
      matchProbability = newMatchProbability,
      pairScore = newPairScore,
      clusterIdx = newClusterIdx,
      candidate = newCandidate,
      mate = newMate\<rparr>"

text \<open>
  \<^verbatim>\<open>MergeAnchor::checkMerge\<close> (lines 1763-1819): the value returned and the anchor as the
  call leaves it. The pair scores are \<^verbatim>\<open>int\<close> here, so they are compared signed.
\<close>

definition checkMerge ::
  "externals \<Rightarrow> MergeAnchor \<Rightarrow> GenomeLocation \<Rightarrow> GenomeLocation \<Rightarrow> prob \<Rightarrow> u32 \<Rightarrow> int \<Rightarrow> nat \<Rightarrow> nat
   \<Rightarrow> bool \<times> MergeAnchor"
where
  "checkMerge ext a newMoreHitLocation newFewerHitLocation newMatchProbability newPairScore
     newClusterIdx newCandidate newMate =
     (if locationForReadWithMoreHits a = InvalidGenomeLocation ext
         \<or> \<not> doesRangeMatch ext a newMoreHitLocation newFewerHitLocation
      then (False, new_anchor newMoreHitLocation newFewerHitLocation newMatchProbability
                     newPairScore newClusterIdx newCandidate newMate)
      else if (clusterIdx a = - 1 \<and> newClusterIdx \<noteq> - 1)
              \<or> (\<not> (clusterIdx a \<noteq> - 1 \<and> newClusterIdx = - 1)
                  \<and> (newPairScore <s pairScore a
                      \<or> (newPairScore = pairScore a \<and> newMatchProbability > matchProbability a)))
      then (False, new_anchor newMoreHitLocation newFewerHitLocation newMatchProbability
                     newPairScore newClusterIdx newCandidate newMate)
      else (True, a))"

text \<open>
  The two scans for a merge candidate (lines 818-844), over the pool entries in the
  order visited: below the candidate going down, above it going up. A scan goes on while
  the entry is of the other set pair or within 50 of the candidate's adjusted location,
  and stops at the first entry of the same set pair that has a merge anchor.
\<close>

fun merge_search :: "ScoringCandidate \<Rightarrow> ScoringCandidate list \<Rightarrow> nat option" where
  "merge_search c [] = None"
| "merge_search c (mergeCandidate # rest) =
     (if whichSetPair mergeCandidate \<noteq> whichSetPair c
         \<or> genomeLocationIsWithin (readWithFewerHitsGenomeLocation mergeCandidate)
              (readWithFewerHitsGenomeLocation c + fewerEndGenomeLocationOffset c) 50
      then (if whichSetPair mergeCandidate = whichSetPair c \<and> mergeAnchor mergeCandidate \<noteq> None
            then mergeAnchor mergeCandidate
            else merge_search c rest)
      else None)"

definition find_merge_anchor :: "ScoringCandidate list \<Rightarrow> nat \<Rightarrow> nat option" where
  "find_merge_anchor pool candIdx =
     (let c = pool ! candIdx in
      case mergeAnchor c of
        Some a \<Rightarrow> Some a
      | None \<Rightarrow>
          (case merge_search c (rev (take candIdx pool)) of
             Some a \<Rightarrow> Some a
           | None \<Rightarrow> merge_search c (drop (Suc candIdx) pool)))"

text \<open>
  Lines 804-881: a mate with a score has been found for the candidate. The pair is
  formed, the candidate's merge anchor is looked up or created, and the best score and
  the score limit are updated. The loop variables \<^verbatim>\<open>scoreLimit\<close> and
  \<^verbatim>\<open>bestCompensatedScore\<close> travel with the state.
\<close>

definition score_pair ::
  "config \<Rightarrow> externals \<Rightarrow> bool \<Rightarrow> nat \<Rightarrow> prob \<Rightarrow> u32 \<Rightarrow> nat \<Rightarrow> aligner \<times> u32 \<times> u32
   \<Rightarrow> error + aligner \<times> u32 \<times> u32"
where
  "score_pair cfg ext inRevise candIdx fewerEndMatchProbability astrayEDPenalty mateIndex s =
     (case s of (st, scoreLimit, bestCompensatedScore) \<Rightarrow>
      let c = scoringCandidatePool st ! candIdx;
          m = scoringMateCandidates st ! whichSetPair c ! mateIndex;
          pairProbability = doubleTimes ext (mateMatchProbability m) fewerEndMatchProbability;
          pairScore' = mateScore m + fewerEndScore c;
          found = find_merge_anchor (scoringCandidatePool st) candIdx;
          compensatedScore' = pairScore' + astrayEDPenalty;
          newMore = readWithMoreHitsGenomeLocation m + genomeOffset m;
          newFewer = readWithFewerHitsGenomeLocation c + fewerEndGenomeLocationOffset c;
          merged =
      (case found of
         None \<Rightarrow>
           if mergeAnchorPoolSize cfg \<le> length (mergeAnchorPool st) then Inl PoolExhausted
           else Inr (True,
                  st\<lparr>mergeAnchorPool := mergeAnchorPool st @
                        [new_anchor newMore newFewer pairProbability pairScore'
                           (candClusterIdx c) candIdx mateIndex],
                     scoringCandidatePool := (scoringCandidatePool st)
                        [candIdx := c\<lparr>mergeAnchor := Some (length (mergeAnchorPool st))\<rparr>]\<rparr>)
       | Some a \<Rightarrow>
           if length (mergeAnchorPool st) \<le> a then Inl (OutOfBounds MergeAnchorPool)
           else (let (ignored, anchor') =
                       checkMerge ext (mergeAnchorPool st ! a) newMore newFewer pairProbability
                         pairScore' (candClusterIdx c) candIdx mateIndex
                 in Inr (ignored,
                      st\<lparr>mergeAnchorPool := (mergeAnchorPool st)[a := anchor'],
                         scoringCandidatePool := (scoringCandidatePool st)
                           [candIdx := c\<lparr>mergeAnchor := Some a\<rparr>]\<rparr>)))
      in (case merged of
            Inl e \<Rightarrow> Inl e
          | Inr (anchorUpdate, st') \<Rightarrow>
              if \<not> inRevise \<and> anchorUpdate
                 \<and> compensatedScore' \<le> maxK cfg + clusterEDCompensation cfg
                 \<and> compensatedScore' < bestCompensatedScore
              then Inr (st',
                        (if \<not> noUkkonen cfg then compensatedScore' + extraSearchDepth cfg
                         else scoreLimit),
                        compensatedScore')
              else Inr (st', scoreLimit, bestCompensatedScore)))"

text \<open>
  One pass of the mate loop (lines 776-883) for the mate at \<open>mateIndex\<close>: the spacing and
  score test, the scoring of the mate where it has no usable cached score, and the
  pairing.
\<close>

definition score_mate ::
  "config \<Rightarrow> externals \<Rightarrow> bool \<Rightarrow> nat \<Rightarrow> prob \<Rightarrow> u32 \<Rightarrow> u32 \<Rightarrow> nat \<Rightarrow> aligner \<times> u32 \<times> u32
   \<Rightarrow> error + aligner \<times> u32 \<times> u32"
where
  "score_mate cfg ext inRevise candIdx fewerEndMatchProbability astrayEDPenalty
     compensatedScoreLimit mateIndex s =
     (case s of (st, scoreLimit, bestCompensatedScore) \<Rightarrow>
      let c = scoringCandidatePool st ! candIdx in
      case mate_at st (whichSetPair c) mateIndex of
        None \<Rightarrow> Inl (OutOfBounds MateCandidatePool)
      | Some m \<Rightarrow>
          if \<not> genomeLocationIsWithin (readWithMoreHitsGenomeLocation m)
                 (readWithFewerHitsGenomeLocation c) (uint (minSpacing cfg))
             \<and> mateBestPossibleScore m \<le> scoreLimit - fewerEndScore c
          then
            (let st1 =
               (if mateScore m = - 2
                   \<or> (mateScore m = - 1 \<and> mateScoreLimit m < compensatedScoreLimit - fewerEndScore c)
                then
                  (let (score', matchProbability', genomeOffset') =
                         scoreLocation ext (readWithMoreHits st)
                           (setPairDirection (whichSetPair c) (readWithMoreHits st))
                           (readWithMoreHitsGenomeLocation m) (mateSeedOffset m)
                           (compensatedScoreLimit - fewerEndScore c) (genomeOffset m)
                   in set_mate (st\<lparr>nLocationsScored := nLocationsScored st + 1\<rparr>)
                        (whichSetPair c) mateIndex
                        (m\<lparr>mateScore := score', mateMatchProbability := matchProbability',
                           genomeOffset := genomeOffset',
                           mateScoreLimit := compensatedScoreLimit - fewerEndScore c\<rparr>))
                else st)
             in if mateScore (scoringMateCandidates st1 ! whichSetPair c ! mateIndex) \<noteq> - 1
                then score_pair cfg ext inRevise candIdx fewerEndMatchProbability astrayEDPenalty
                       mateIndex (st1, scoreLimit, bestCompensatedScore)
                else Inr (st1, scoreLimit, bestCompensatedScore))
          else Inr (st, scoreLimit, bestCompensatedScore))"

text \<open>
  The mate loop \<^verbatim>\<open>for (;;)\<close> (lines 774-894): the pass for \<open>mateIndex\<close>, then the move to
  \<open>mateIndex - 1\<close> unless \<open>mateIndex\<close> is 0 or that mate is not within \<^verbatim>\<open>maxSpacing\<close> of
  the candidate.
\<close>

function score_mates ::
  "config \<Rightarrow> externals \<Rightarrow> bool \<Rightarrow> nat \<Rightarrow> prob \<Rightarrow> u32 \<Rightarrow> u32 \<Rightarrow> nat \<Rightarrow> aligner \<times> u32 \<times> u32
   \<Rightarrow> error + aligner \<times> u32 \<times> u32"
where
  "score_mates cfg ext inRevise candIdx fewerEndMatchProbability astrayEDPenalty
     compensatedScoreLimit mateIndex s =
     (case score_mate cfg ext inRevise candIdx fewerEndMatchProbability astrayEDPenalty
             compensatedScoreLimit mateIndex s of
        Inl e \<Rightarrow> Inl e
      | Inr s' \<Rightarrow>
          if mateIndex = 0 then Inr s'
          else
            (let c = scoringCandidatePool (fst s') ! candIdx in
             case mate_at (fst s') (whichSetPair c) (mateIndex - 1) of
               None \<Rightarrow> Inl (OutOfBounds MateCandidatePool)
             | Some m \<Rightarrow>
                 if \<not> genomeLocationIsWithin (readWithMoreHitsGenomeLocation m)
                        (readWithFewerHitsGenomeLocation c) (uint (maxSpacing cfg))
                 then Inr s'
                 else score_mates cfg ext inRevise candIdx fewerEndMatchProbability
                        astrayEDPenalty compensatedScoreLimit (mateIndex - 1) s'))"
  by pat_completeness auto
termination
  by (relation "measure (\<lambda>(cfg, ext, inRevise, candIdx, p, a, l, mateIndex, s). mateIndex)") auto

declare score_mates.simps [simp del]

text \<open>
  The body of the outer loop for the candidate at the head of a score list (lines
  744-895): the fewer end is scored with \<^verbatim>\<open>compensatedScoreLimit\<close>, and if it has a score
  the mates are walked from \<^verbatim>\<open>scoringMateCandidateIndex\<close> down.
\<close>

definition score_candidate ::
  "config \<Rightarrow> externals \<Rightarrow> bool \<Rightarrow> nat \<Rightarrow> aligner \<times> u32 \<times> u32 \<Rightarrow> error + aligner \<times> u32 \<times> u32"
where
  "score_candidate cfg ext inRevise candIdx s =
     (case s of (st, scoreLimit, bestCompensatedScore) \<Rightarrow>
      if length (scoringCandidatePool st) \<le> candIdx then Inl (OutOfBounds CandidatePool)
      else
        (let c = scoringCandidatePool st ! candIdx;
             astrayEDPenalty = (if candClusterIdx c = - 1 then clusterEDCompensation cfg else 0);
             compensatedScoreLimit = scoreLimit - astrayEDPenalty
         in if 2 \<le> whichSetPair c \<or> 2 \<le> readWithFewerHits st then Inl (OutOfBounds SetPairArrays)
            else
              (let (score', fewerEndMatchProbability, offset') =
                     scoreLocation ext (readWithFewerHits st)
                       (setPairDirection (whichSetPair c) (readWithFewerHits st))
                       (readWithFewerHitsGenomeLocation c) (seedOffset c) compensatedScoreLimit
                       (fewerEndGenomeLocationOffset c);
                   st1 = st\<lparr>nLocationsScored := nLocationsScored st + 1,
                            scoringCandidatePool := (scoringCandidatePool st)
                              [candIdx := c\<lparr>fewerEndScore := score',
                                            fewerEndGenomeLocationOffset := offset'\<rparr>]\<rparr>
               in if score' \<noteq> - 1
                  then score_mates cfg ext inRevise candIdx fewerEndMatchProbability
                         astrayEDPenalty compensatedScoreLimit
                         (unat (scoringMateCandidateIndex c)) (st1, scoreLimit, bestCompensatedScore)
                  else Inr (st1, scoreLimit, bestCompensatedScore))))"

text \<open>
  The outer loop of \<^verbatim>\<open>align_phase_3_score\<close> (lines 732-897) over
  \<^verbatim>\<open>currentBestPossibleScoreList\<close>. An empty list moves to the next one; otherwise the
  head is scored and the list becomes the head's \<^verbatim>\<open>scoreListNext\<close>, its tail (scoring
  does not touch the lists). The counter is a natural number: it is incremented only
  after \<^verbatim>\<open>scoringCandidates[k]\<close> was read, and a read at or past the array's length is
  the \<open>OutOfBounds\<close> error.
\<close>

function score_loop ::
  "config \<Rightarrow> externals \<Rightarrow> bool \<Rightarrow> nat \<Rightarrow> aligner \<times> u32 \<times> u32 \<Rightarrow> error + aligner \<times> u32 \<times> u32"
where
  "score_loop cfg ext inRevise currentBestPossibleScoreList s =
     (if currentBestPossibleScoreList \<le> unat (maxUsedBestPossibleScoreList (fst s))
         \<and> currentBestPossibleScoreList \<le> unat (fst (snd s))
      then
        if length (scoringCandidates (fst s)) \<le> currentBestPossibleScoreList then Inl (OutOfBounds ScoringCandidatesArray)
        else
          (case scoringCandidates (fst s) ! currentBestPossibleScoreList of
             [] \<Rightarrow> score_loop cfg ext inRevise (currentBestPossibleScoreList + 1) s
           | candIdx # scoreListNext \<Rightarrow>
               (case score_candidate cfg ext inRevise candIdx s of
                  Inl e \<Rightarrow> Inl e
                | Inr (st', scoreLimit', bestCompensatedScore') \<Rightarrow>
                    score_loop cfg ext inRevise currentBestPossibleScoreList
                      (st'\<lparr>scoringCandidates :=
                            (scoringCandidates (fst s))[currentBestPossibleScoreList := scoreListNext]\<rparr>,
                       scoreLimit', bestCompensatedScore')))
      else Inr s)"
  by pat_completeness auto
termination
proof (relation "measures [\<lambda>(cfg, ext, inRevise, k, s). sum_list (map length (scoringCandidates (fst s))),
                           \<lambda>(cfg, ext, inRevise, k, s). length (scoringCandidates (fst s)) - k]",
       goal_cases)
  case 1
  show ?case by simp
next
  case (2 cfg ext inRevise k s)
  then show ?case by auto
next
  case (3 cfg ext inRevise k s candIdx rest x st' y scoreLimit' best')
  let ?ls = "scoringCandidates (fst s)"
  from 3 have k: "k < length ?ls" and hd: "?ls ! k = candIdx # rest" by auto
  have dec: "j < length ls \<Longrightarrow> ls ! j = candIdx # rest \<Longrightarrow>
      sum_list (map length (ls[j := rest])) < sum_list (map length ls)" for ls :: "nat list list" and j
    by (induction ls arbitrary: j) (auto simp: nth_Cons split: nat.splits)
  from dec [OF k hd]
  have "sum_list (map length (?ls[k := rest])) < sum_list (map length ?ls)" .
  then show ?case by simp
qed

declare score_loop.simps [simp del]

text \<open>
  \<^verbatim>\<open>align_phase_3_score\<close> (lines 705-898): the initial score limit, then the loop.
  (\<^verbatim>\<open>localBestPairProbability\<close> is written and never read in this file.) The result is
  the state and the caller's \<^verbatim>\<open>bestCompensatedScore\<close>.
\<close>

definition align_phase_3_score ::
  "config \<Rightarrow> externals \<Rightarrow> aligner \<Rightarrow> u32 \<Rightarrow> bool \<Rightarrow> error + aligner \<times> u32"
where
  "align_phase_3_score cfg ext st bestCompensatedScore inRevise =
     (let scoreLimit =
            (if inRevise
             then bestCompensatedScore + extraSearchDepth cfg + clusterEDCompensation cfg
             else maxK cfg + extraSearchDepth cfg + clusterEDCompensation cfg)
      in case score_loop cfg ext inRevise 0 (st, scoreLimit, bestCompensatedScore) of
           Inl e \<Rightarrow> Inl e
         | Inr (st', scoreLimit', bestCompensatedScore') \<Rightarrow> Inr (st', bestCompensatedScore'))"

section \<open>Phase 3: counting and generating the results\<close>

text \<open>
  The cluster decision that \<^verbatim>\<open>align_phase_3_count_results\<close> and
  \<^verbatim>\<open>align_phase_3_generate_results\<close> both make for an anchor (lines 982-991 and
  1040-1050): the cluster identifier the result gets (generate sets it to \<open>- 1\<close> for an
  astray anchor), \<^verbatim>\<open>astrayEDPenalty\<close> and \<^verbatim>\<open>astrayProbabilityPenalty\<close>.
\<close>

definition cluster_decision :: "config \<Rightarrow> (int \<Rightarrow> u8) \<Rightarrow> u8 \<Rightarrow> MergeAnchor \<Rightarrow> int \<times> u32 \<times> prob" where
  "cluster_decision cfg clusterCounterAry minClusterSize a =
     (if clusterIdx a \<noteq> - 1 \<and> minClusterSize \<le> clusterCounterAry (clusterIdx a)
      then (clusterIdx a, 0, 1)
      else (- 1, clusterEDCompensation cfg, unclusteredPenalty cfg))"

text \<open>
  \<^verbatim>\<open>align_phase_3_count_results\<close> (lines 958-1012): the loop carries
  \<^verbatim>\<open>probabilityOfAllPairs\<close> and \<^verbatim>\<open>*nSecondaryResults\<close>; the function returns whether the
  buffer is too small, with both.
\<close>

fun count_results_loop ::
  "config \<Rightarrow> externals \<Rightarrow> (int \<Rightarrow> u8) \<Rightarrow> u8 \<Rightarrow> u32 \<Rightarrow> u32 \<Rightarrow> MergeAnchor list \<Rightarrow> prob \<times> int
   \<Rightarrow> prob \<times> int"
where
  "count_results_loop cfg ext clusterCounterAry minClusterSize EDMapQCutOff EDResultCutOff []
     (probabilityOfAllPairs, nSecondaryResults) = (probabilityOfAllPairs, nSecondaryResults)"
| "count_results_loop cfg ext clusterCounterAry minClusterSize EDMapQCutOff EDResultCutOff (a # anchors)
     (probabilityOfAllPairs, nSecondaryResults) =
     (let (c, astrayEDPenalty, astrayProbabilityPenalty) =
            cluster_decision cfg clusterCounterAry minClusterSize a;
          compensatedScore' = pairScore a + astrayEDPenalty
      in count_results_loop cfg ext clusterCounterAry minClusterSize EDMapQCutOff EDResultCutOff anchors
           ((if compensatedScore' \<le> EDMapQCutOff
             then doublePlus ext probabilityOfAllPairs
                    (doubleTimes ext (matchProbability a) astrayProbabilityPenalty)
             else probabilityOfAllPairs),
            (if compensatedScore' \<le> EDResultCutOff then nSecondaryResults + 1
             else nSecondaryResults)))"

definition align_phase_3_count_results ::
  "config \<Rightarrow> externals \<Rightarrow> aligner \<Rightarrow> (int \<Rightarrow> u8) \<Rightarrow> u32 \<Rightarrow> u32 \<Rightarrow> u8 \<Rightarrow> int
   \<Rightarrow> bool \<times> int \<times> prob"
where
  "align_phase_3_count_results cfg ext st clusterCounterAry maxEditDistanceForSecondaryResults
     bestCompensatedScore minClusterSize secondaryResultBufferSize =
     (let EDMapQCutOff = bestCompensatedScore + extraSearchDepth cfg;
          EDResultCutOff = bestCompensatedScore + maxEditDistanceForSecondaryResults;
          (probabilityOfAllPairs, nSecondaryResults) =
             count_results_loop cfg ext clusterCounterAry minClusterSize EDMapQCutOff EDResultCutOff
               (mergeAnchorPool st) (0, 0)
      in (secondaryResultBufferSize < nSecondaryResults, nSecondaryResults, probabilityOfAllPairs))"

text \<open>
  \<^verbatim>\<open>setPairDirection\<close> as \<^verbatim>\<open>align_phase_3_generate_results\<close> declares it:
  \<^verbatim>\<open>{ {FORWARD, RC}, {65, FORWARD} }\<close>.
\<close>

definition setPairDirection_generate :: "nat \<Rightarrow> nat \<Rightarrow> nat" where
  "setPairDirection_generate whichSetPair' whichRead =
     [[FORWARD, RC], [65, FORWARD]] ! whichSetPair' ! whichRead"

text \<open>
  \<^verbatim>\<open>PairedAlignmentResult\<close>: the fields this file writes. The two-element arrays
  (\<^verbatim>\<open>location\<close>, \<^verbatim>\<open>direction\<close>, \<^verbatim>\<open>score\<close>, \<^verbatim>\<open>status\<close>, \<^verbatim>\<open>mapq\<close>) are lists of
  length 2 indexed by the read number.
\<close>

datatype AlignmentResult = NotFound | SingleHit | MultipleHits | UnknownAlignment

record PairedAlignmentResult =
  compensatedScore :: u32
  alignedAsPair :: bool
  direction :: "nat list"
  fromAlignTogether :: bool
  location :: "GenomeLocation list"
  mapq :: "int list"
  score :: "u32 list"
  status :: "AlignmentResult list"
  probability :: prob
  resultClusterIdx :: int

text \<open>
  The loop of \<^verbatim>\<open>align_phase_3_generate_results\<close> (lines 1039-1086). Its variables are
  the secondary buffer (a caller's array with whatever it held before),
  \<^verbatim>\<open>nextResultIdx\<close>, \<^verbatim>\<open>bestResultIdx\<close>, \<^verbatim>\<open>bestCompensatedScore\<close> and
  \<^verbatim>\<open>probabilityOfBestPair\<close>. A write past the end of the buffer, and a candidate or
  mate pointer outside its pool, is the \<open>OutOfBounds\<close> error.
\<close>

fun generate_results_loop ::
  "config \<Rightarrow> externals \<Rightarrow> aligner \<Rightarrow> (int \<Rightarrow> u8) \<Rightarrow> u8 \<Rightarrow> u32 \<Rightarrow> MergeAnchor list
   \<Rightarrow> PairedAlignmentResult list \<times> int \<times> int \<times> u32 \<times> prob
   \<Rightarrow> error + PairedAlignmentResult list \<times> int \<times> int \<times> u32 \<times> prob"
where
  "generate_results_loop cfg ext st clusterCounterAry minClusterSize EDResultCutOff [] s = Inr s"
| "generate_results_loop cfg ext st clusterCounterAry minClusterSize EDResultCutOff (a # anchors)
     (secondaryResults, nextResultIdx, bestResultIdx, bestCompensatedScore, probabilityOfBestPair) =
     (let (clusterIdx', astrayEDPenalty, astrayProbabilityPenalty) =
            cluster_decision cfg clusterCounterAry minClusterSize a;
          compensatedScore' = pairScore a + astrayEDPenalty
      in if compensatedScore' \<le> EDResultCutOff then
           (let compensatedProbability =
                  doubleTimes ext (matchProbability a) astrayProbabilityPenalty in
            if length (scoringCandidatePool st) \<le> candidate a then Inl (OutOfBounds CandidatePool)
            else
              (let candidatePtr = scoringCandidatePool st ! candidate a in
               case mate_at st (whichSetPair candidatePtr) (mate a) of
                 None \<Rightarrow> Inl (OutOfBounds MateCandidatePool)
               | Some matePtr \<Rightarrow>
                   if 2 \<le> readWithFewerHits st \<or> 2 \<le> whichSetPair candidatePtr
                   then Inl (OutOfBounds SetPairArrays)
                   else if nextResultIdx < 0 \<or> int (length secondaryResults) \<le> nextResultIdx
                   then Inl (OutOfBounds SecondaryResultsBuffer)
                   else
                     (let old = secondaryResults ! nat nextResultIdx;
                          moreRead = readWithMoreHits st;
                          fewerRead = readWithFewerHits st;
                          secondaryResult =
                            old\<lparr>compensatedScore := compensatedScore',
                                alignedAsPair := True,
                                direction := (direction old)
                                  [moreRead := setPairDirection_generate (whichSetPair candidatePtr) moreRead,
                                   fewerRead := setPairDirection_generate (whichSetPair candidatePtr) fewerRead],
                                fromAlignTogether := True,
                                location := (location old)
                                  [moreRead := readWithMoreHitsGenomeLocation matePtr + genomeOffset matePtr,
                                   fewerRead := readWithFewerHitsGenomeLocation candidatePtr
                                              + fewerEndGenomeLocationOffset candidatePtr],
                                mapq := (mapq old)[1 := 0, 0 := 0],
                                score := (score old)
                                  [moreRead := mateScore matePtr, fewerRead := fewerEndScore candidatePtr],
                                status := (status old)[moreRead := MultipleHits, fewerRead := MultipleHits],
                                probability := compensatedProbability,
                                resultClusterIdx := clusterIdx'\<rparr>;
                          secondaryResults' = secondaryResults[nat nextResultIdx := secondaryResult];
                          nextResultIdx' = nextResultIdx + 1
                      in if compensatedScore' \<le> bestCompensatedScore
                            \<and> compensatedProbability \<ge> probabilityOfBestPair
                         then generate_results_loop cfg ext st clusterCounterAry minClusterSize
                                EDResultCutOff anchors
                                (secondaryResults', nextResultIdx', nextResultIdx',
                                 compensatedScore', compensatedProbability)
                         else generate_results_loop cfg ext st clusterCounterAry minClusterSize
                                EDResultCutOff anchors
                                (secondaryResults', nextResultIdx', bestResultIdx,
                                 bestCompensatedScore, probabilityOfBestPair))))
         else generate_results_loop cfg ext st clusterCounterAry minClusterSize EDResultCutOff anchors
                (secondaryResults, nextResultIdx, bestResultIdx, bestCompensatedScore,
                 probabilityOfBestPair))"

text \<open>
  \<^verbatim>\<open>align_phase_3_generate_results\<close> (lines 1015-1133). After the loop the best result
  is filled from \<^verbatim>\<open>secondaryResults[bestResultIdx]\<close>, that slot is overwritten with the
  last secondary result and the count goes down by one; with no best index the best
  result is marked not found. The outcome is \<^verbatim>\<open>bestCompensatedScore\<close>,
  \<^verbatim>\<open>*nSecondaryResults\<close>, the buffer and \<^verbatim>\<open>*bestResult\<close> (the function itself always
  returns false).
\<close>

definition align_phase_3_generate_results ::
  "config \<Rightarrow> externals \<Rightarrow> aligner \<Rightarrow> (int \<Rightarrow> u8) \<Rightarrow> u8 \<Rightarrow> u32 \<Rightarrow> u32 \<Rightarrow> int
   \<Rightarrow> PairedAlignmentResult list \<Rightarrow> PairedAlignmentResult
   \<Rightarrow> error + u32 \<times> int \<times> PairedAlignmentResult list \<times> PairedAlignmentResult"
where
  "align_phase_3_generate_results cfg ext st clusterCounterAry minClusterSize
     maxEditDistanceForSecondaryResults bestCompensatedScore nSecondaryResults secondaryResults
     bestResult =
     (let EDResultCutOff = bestCompensatedScore + maxEditDistanceForSecondaryResults in
      case generate_results_loop cfg ext st clusterCounterAry minClusterSize EDResultCutOff
             (mergeAnchorPool st) (secondaryResults, 0, - 1, bestCompensatedScore, 0) of
        Inl e \<Rightarrow> Inl e
      | Inr (secondaryResults', nextResultIdx, bestResultIdx, bestCompensatedScore', probabilityOfBestPair) \<Rightarrow>
          if bestResultIdx \<noteq> - 1 then
            (if bestResultIdx < 0 \<or> int (length secondaryResults') \<le> bestResultIdx
                \<or> nSecondaryResults - 1 < 0 \<or> int (length secondaryResults') \<le> nSecondaryResults - 1
             then Inl (OutOfBounds SecondaryResultsBuffer)
             else
               (let bestResultPtr = secondaryResults' ! nat bestResultIdx;
                    moreRead = readWithMoreHits st;
                    fewerRead = readWithFewerHits st;
                    bestResult' =
                      bestResult\<lparr>compensatedScore := compensatedScore bestResultPtr,
                                 alignedAsPair := alignedAsPair bestResultPtr,
                                 direction := (direction bestResult)
                                   [moreRead := direction bestResultPtr ! moreRead,
                                    fewerRead := direction bestResultPtr ! fewerRead],
                                 fromAlignTogether := True,
                                 location := (location bestResult)
                                   [moreRead := location bestResultPtr ! moreRead,
                                    fewerRead := location bestResultPtr ! fewerRead],
                                 mapq := (mapq bestResult)
                                   [0 := mapq bestResultPtr ! 0, 1 := mapq bestResultPtr ! 1],
                                 score := (score bestResult)
                                   [moreRead := score bestResultPtr ! moreRead,
                                    fewerRead := score bestResultPtr ! fewerRead],
                                 status := (status bestResult)
                                   [fewerRead := status bestResultPtr ! fewerRead,
                                    moreRead := status bestResultPtr ! moreRead],
                                 probability := probability bestResultPtr,
                                 resultClusterIdx := resultClusterIdx bestResultPtr\<rparr>
                in Inr (bestCompensatedScore', nSecondaryResults - 1,
                        secondaryResults'[nat bestResultIdx := secondaryResults' ! nat (nSecondaryResults - 1)],
                        bestResult')))
          else
            Inr (bestCompensatedScore', nSecondaryResults, secondaryResults',
                 bestResult\<lparr>compensatedScore := - 1,
                            resultClusterIdx := - 1,
                            location := (location bestResult)
                              [0 := InvalidGenomeLocation ext, 1 := InvalidGenomeLocation ext],
                            mapq := (mapq bestResult)[0 := 0, 1 := 0],
                            score := (score bestResult)[0 := - 1, 1 := - 1],
                            status := (status bestResult)[0 := NotFound, 1 := NotFound]\<rparr>))"

section \<open>The top-level entry point\<close>

text \<open>
  \<^verbatim>\<open>TenXSingleAligner::align\<close> (lines 1312-1358): the whole body but
  \<^verbatim>\<open>return true\<close> is commented out. The model takes everything the call could touch
  (the aligner's state \<open>st\<close> of any type, the result record, the secondary buffer and
  its count) and returns it beside the return value.
\<close>

definition align ::
  "'st \<Rightarrow> string \<Rightarrow> string \<Rightarrow> PairedAlignmentResult \<Rightarrow> u32 \<Rightarrow> int \<Rightarrow> int \<Rightarrow>
   PairedAlignmentResult list \<Rightarrow> int \<Rightarrow>
   bool \<times> 'st \<times> PairedAlignmentResult \<times> int \<times> PairedAlignmentResult list"
where
  "align st read0 read1 result maxEditDistanceForSecondaryResults secondaryResultBufferSize
     nSecondaryResults secondaryResults maxSecondaryResultsToReturn =
     (True, st, result, nSecondaryResults, secondaryResults)"

section \<open>The phase 3 sequence and example inputs\<close>

text \<open>
  Modelled from the spec: the caller of the phase 3 functions is not part of the sources
  (the body of \<^verbatim>\<open>align\<close> that would call them is commented out). The specification has
  callers drive them "in a strict sequence (score, increment, correct, generate)", count
  before generate; \<open>phase_3_run\<close> is that sequence for one pair, starting from the best
  score 65536 of the commented-out driver and from unset toggles.
\<close>

definition blank_result :: PairedAlignmentResult where
  "blank_result =
     \<lparr>compensatedScore = 0, alignedAsPair = False, direction = [0, 0], fromAlignTogether = False,
      location = [0, 0], mapq = [0, 0], score = [0, 0], status = [UnknownAlignment, UnknownAlignment],
      probability = 0, resultClusterIdx = 0\<rparr>"

definition phase_3_run ::
  "config \<Rightarrow> externals \<Rightarrow> aligner \<Rightarrow> (int \<Rightarrow> u8) \<Rightarrow> u8 \<Rightarrow> u32 \<Rightarrow> PairedAlignmentResult list
   \<Rightarrow> error + u32 \<times> int \<times> PairedAlignmentResult list \<times> PairedAlignmentResult"
where
  "phase_3_run cfg ext st clusterCounterAry minClusterSize maxEditDistanceForSecondaryResults
     secondaryResults =
     (case align_phase_3_score cfg ext st 65536 False of
        Inl e \<Rightarrow> Inl e
      | Inr (st1, best1) \<Rightarrow>
          (let (counters, toggles) =
                 align_phase_3_increment_cluster cfg (mergeAnchorPool st1) best1
                   (clusterCounterAry, \<lambda>c. False);
               (best2, changed) =
                 align_phase_3_correct_best_score cfg (mergeAnchorPool st1) counters best1
                   minClusterSize;
               (tooSmall, nSecondaryResults, probabilityOfAllPairs) =
                 align_phase_3_count_results cfg ext st1 counters maxEditDistanceForSecondaryResults
                   best2 minClusterSize (int (length secondaryResults))
           in align_phase_3_generate_results cfg ext st1 counters minClusterSize
                maxEditDistanceForSecondaryResults best2 nSecondaryResults secondaryResults
                blank_result))"

text \<open>
  The configuration of the specification's end-to-end scenarios: \<open>seedLen = 8\<close>,
  \<open>maxSpacing = 1000\<close>, \<open>minSpacing = 50\<close>, \<open>maxK = 5\<close>, \<open>extraSearchDepth = 2\<close>,
  \<open>clusterEDCompensation = 3\<close>, \<open>unclusteredPenalty = 0.5\<close>, Ukkonen pruning on.
\<close>

definition example_cfg :: config where
  "example_cfg =
     \<lparr>maxReadSize = 400, seedLen = 8, numSeedsFromCommandLine = 4,
      seedsForCoverage = (\<lambda>n. 0),
      maxBigHits = 32,
      maxK = 5, extraSearchDepth = 2, minSpacing = 50, maxSpacing = 1000,
      clusterEDCompensation = 3, unclusteredPenalty = 1 / 2, noUkkonen = False,
      noOrderedEvaluation = False, noTruncation = False, scoringCandidatePoolSize = 8,
      mergeAnchorPoolSize = 8\<rparr>"

text \<open>
  Externals for the examples. The forward edit-distance computation reads the score and
  probability of a location from a table and keeps the oracle's contract (the score is
  at most the limit, or it is \<open>- 1\<close>); the reverse one finds no further difference. Two
  anchors match in range when both ends are less than 50 apart. The probabilities of the
  examples are 0, 1/2 and 1, whose sums and products the machine computes without
  rounding.
\<close>

definition table_externals :: "(GenomeLocation \<times> u32 \<times> prob) list \<Rightarrow> externals" where
  "table_externals t =
     \<lparr>InvalidGenomeLocation = 4294967295,
      doesRangeMatch = (\<lambda>a newMore newFewer.
         \<bar>locationForReadWithMoreHits a - newMore\<bar> < 50
         \<and> \<bar>locationForReadWithFewerHits a - newFewer\<bar> < 50),
      substringAvailable = (\<lambda>whichRead dir l. True),
      forwardLV = (\<lambda>whichRead dir l so limit.
         case map_of t l of
           None \<Rightarrow> (- 1, 0)
         | Some (s, p) \<Rightarrow> if s \<le> limit then (s, p) else (- 1, 0)),
      reverseLV = (\<lambda>whichRead dir l so limit. (0, 1, 0)),
      seedProbability = 1,
      doublePlus = (\<lambda>x y. x + y),
      doubleTimes = (\<lambda>x y. x * y)\<rparr>"

text \<open>
  A candidate as phase 2 leaves it (location, index of its lowest mate, cluster), an
  unscored mate (score \<open>- 2\<close>), and a result as \<^verbatim>\<open>align_phase_3_generate_results\<close>
  writes it for set pair 0.
\<close>

definition example_candidate :: "GenomeLocation \<Rightarrow> u32 \<Rightarrow> int \<Rightarrow> ScoringCandidate" where
  "example_candidate l mateIdx c =
     \<lparr>readWithFewerHitsGenomeLocation = l, whichSetPair = 0, scoringMateCandidateIndex = mateIdx,
      seedOffset = 0, bestPossibleScore = 0, candClusterIdx = c, fewerEndScore = 0,
      fewerEndGenomeLocationOffset = 0, mergeAnchor = None\<rparr>"

definition example_mate :: "GenomeLocation \<Rightarrow> ScoringMateCandidate" where
  "example_mate l =
     \<lparr>readWithMoreHitsGenomeLocation = l, mateBestPossibleScore = 0, mateSeedOffset = 0,
      mateScore = - 2, mateScoreLimit = 0, mateMatchProbability = 0, genomeOffset = 0\<rparr>"

definition example_result ::
  "u32 \<Rightarrow> GenomeLocation list \<Rightarrow> u32 list \<Rightarrow> prob \<Rightarrow> int \<Rightarrow> PairedAlignmentResult"
where
  "example_result cs locs scores p c =
     \<lparr>compensatedScore = cs, alignedAsPair = True, direction = [FORWARD, RC],
      fromAlignTogether = True, location = locs, mapq = [0, 0], score = scores,
      status = [MultipleHits, MultipleHits], probability = p, resultClusterIdx = c\<rparr>"

text \<open>
  Two pairs of cluster 7, far apart: the fewer-hits read at 5000 with its mate at 5400,
  and at 1000 with its mate at 1400. Phase 2 walks down the genome, so the candidate at
  1000 was inserted last and heads score list 0.
\<close>

definition two_pair_state :: aligner where
  "two_pair_state =
     \<lparr>readWithFewerHits = 0,
      scoringCandidates = [[1, 0], [], [], [], [], [], [], []],
      scoringCandidatePool = [example_candidate 5000 0 7, example_candidate 1000 1 7],
      scoringMateCandidates = [[example_mate 5400, example_mate 1400], []],
      mergeAnchorPool = [], maxUsedBestPossibleScoreList = 0, nLocationsScored = 0\<rparr>"

text \<open>
  Two candidates of cluster 7 ten bases apart, at 1010 and 1000, sharing the mate at
  1500: they share one merge anchor.
\<close>

definition merge_state :: aligner where
  "merge_state =
     \<lparr>readWithFewerHits = 0,
      scoringCandidates = [[1, 0], [], [], [], [], [], [], []],
      scoringCandidatePool = [example_candidate 1010 0 7, example_candidate 1000 0 7],
      scoringMateCandidates = [[example_mate 1500], []],
      mergeAnchorPool = [], maxUsedBestPossibleScoreList = 0, nLocationsScored = 0\<rparr>"

definition merge_scored :: aligner where
  "merge_scored =
     merge_state\<lparr>
       scoringCandidates := [[], [], [], [], [], [], [], []],
       scoringCandidatePool :=
         [(example_candidate 1010 0 7)\<lparr>fewerEndScore := 2, mergeAnchor := Some 0\<rparr>,
          (example_candidate 1000 0 7)\<lparr>fewerEndScore := 5, mergeAnchor := Some 0\<rparr>],
       scoringMateCandidates :=
         [[(example_mate 1500)\<lparr>mateScore := 0, mateScoreLimit := 5, mateMatchProbability := 1\<rparr>], []],
       mergeAnchorPool := [new_anchor 1500 1010 1 2 7 0 0],
       nLocationsScored := 3\<rparr>"

text \<open>
  Hit sets for the examples: one recorded lookup at seed offset 0 with the given hits
  and nothing readable before them (the other seeds of its disjoint hit set,
  \<open>exhausted\<close> of them, had no hit), and a hit set with no lookup. \<open>example_descent\<close> pairs two hit sets as set pair 0 and leaves set
  pair 1 without hits; \<open>fresh_aligner\<close> is the aligner as \<^verbatim>\<open>align_phase_1\<close> resets it,
  with the \<open>maxK + extraSearchDepth + 1 = 8\<close> score lists of \<open>example_cfg\<close>.
\<close>

definition one_lookup :: "GenomeLocation list \<Rightarrow> u32 \<Rightarrow> HashTableHitSet" where
  "one_lookup hs exhausted =
     \<lparr>lookups = [\<lparr>hits = \<lparr>wordBefore = None, entries = hs\<rparr>, nHits = int (length hs),
                   currentHitForIntersection = 0,
                   lookupSeedOffset = 0, whichDisjointHitSet = 0\<rparr>],
      disjointHitSets = [exhausted], mostRecentLocationReturned = 0\<rparr>"

definition no_lookups :: HashTableHitSet where
  "no_lookups = \<lparr>lookups = [], disjointHitSets = [], mostRecentLocationReturned = 0\<rparr>"

definition example_descent :: "HashTableHitSet \<Rightarrow> HashTableHitSet \<Rightarrow> descent" where
  "example_descent fewerSet moreSet =
     \<lparr>setPair = [[fewerSet, moreSet], [no_lookups, no_lookups]],
      lastGenomeLocationForReadWithMoreHits = [0, 0],
      lastGenomeLocationForReadWithFewerHits = [0, 0],
      lastSeedOffsetForReadWithMoreHits = [0, 0],
      lastSeedOffsetForReadWithFewerHits = [0, 0],
      outOfMoreHitsLocations = [False, False],
      noMoreLocus = [False, False]\<rparr>"

definition fresh_aligner :: aligner where
  "fresh_aligner =
     \<lparr>readWithFewerHits = 0,
      scoringCandidates = [[], [], [], [], [], [], [], []],
      scoringCandidatePool = [], scoringMateCandidates = [[], []],
      mergeAnchorPool = [], maxUsedBestPossibleScoreList = 0, nLocationsScored = 0\<rparr>"

text \<open>
  Result \<open>r\<close> is what the generate loop writes for anchor \<open>a\<close>: its compensated score is
  the anchor's pair score plus the astray penalty of the cluster decision, and that
  score is within the cut-off. An anchor \<open>qualifies\<close> for the secondary buffer when its
  compensated score is within the cut-off (lines 1052-1055, and 993-1003 where they are
  counted).
\<close>

definition written_for ::
  "config \<Rightarrow> (int \<Rightarrow> u8) \<Rightarrow> u8 \<Rightarrow> u32 \<Rightarrow> MergeAnchor \<Rightarrow> PairedAlignmentResult \<Rightarrow> bool"
where
  "written_for cfg clusterCounterAry minClusterSize EDResultCutOff a r =
     (compensatedScore r = pairScore a + fst (snd (cluster_decision cfg clusterCounterAry minClusterSize a))
      \<and> compensatedScore r \<le> EDResultCutOff)"


text \<open>
  Two candidates of cluster 7 at 1200 and 1000, too far apart to share a merge anchor,
  with the one mate at 1500; the candidate at 1000 heads score list 0.
  \<open>cached_mate_scored\<close> is that state after \<^verbatim>\<open>align_phase_3_score\<close> when the candidates
  score 2 and 0 and the mate scores 9: the mate is scored once, for the candidate at
  1000 and against the limit 10, and its score is read again for the candidate at 1200.
\<close>

definition cached_mate_state :: aligner where
  "cached_mate_state =
     \<lparr>readWithFewerHits = 0,
      scoringCandidates = [[1, 0], [], [], [], [], [], [], []],
      scoringCandidatePool = [example_candidate 1200 0 7, example_candidate 1000 0 7],
      scoringMateCandidates = [[example_mate 1500], []],
      mergeAnchorPool = [], maxUsedBestPossibleScoreList = 0, nLocationsScored = 0\<rparr>"

definition cached_mate_scored :: aligner where
  "cached_mate_scored =
     cached_mate_state\<lparr>
       scoringCandidates := [[], [], [], [], [], [], [], []],
       scoringCandidatePool :=
         [(example_candidate 1200 0 7)\<lparr>fewerEndScore := 2, mergeAnchor := Some 1\<rparr>,
          (example_candidate 1000 0 7)\<lparr>fewerEndScore := 0, mergeAnchor := Some 0\<rparr>],
       scoringMateCandidates :=
         [[(example_mate 1500)\<lparr>mateScore := 9, mateScoreLimit := 10, mateMatchProbability := 1\<rparr>], []],
       mergeAnchorPool := [new_anchor 1500 1000 1 9 7 1 0, new_anchor 1500 1200 1 11 7 0 0],
       nLocationsScored := 3\<rparr>"









text \<open>
  The lookups the binary search is entered with: the cursor
  \<^verbatim>\<open>currentHitForIntersection\<close> lies between 0 and \<^verbatim>\<open>nHits\<close>, and \<^verbatim>\<open>nHits\<close> is at most the
  number of entries of the array. \<open>with_word_before w h\<close> is the hit set \<open>h\<close> in a memory
  where the word before each of its hit arrays can be read and holds \<open>w\<close>.
  \<open>single_hit\<close> is a hit set with one lookup of the single hit 5, its cursor at 0, with
  the given word, or none, before the array.
\<close>

definition lookup_in_range :: "HashTableLookup \<Rightarrow> bool" where
  "lookup_in_range l =
     (0 \<le> currentHitForIntersection l \<and> currentHitForIntersection l \<le> nHits l
      \<and> nHits l \<le> int (length (entries (hits l))))"

definition lookup_with_word :: "GenomeLocation \<Rightarrow> HashTableLookup \<Rightarrow> HashTableLookup" where
  "lookup_with_word w l = l\<lparr>hits := (hits l)\<lparr>wordBefore := Some w\<rparr>\<rparr>"

definition with_word_before :: "GenomeLocation \<Rightarrow> HashTableHitSet \<Rightarrow> HashTableHitSet" where
  "with_word_before w h = h\<lparr>lookups := map (lookup_with_word w) (lookups h)\<rparr>"

definition single_hit :: "GenomeLocation option \<Rightarrow> HashTableHitSet" where
  "single_hit w =
     \<lparr>lookups = [\<lparr>hits = \<lparr>wordBefore = w, entries = [5]\<rparr>, nHits = 1,
                   currentHitForIntersection = 0, lookupSeedOffset = 0, whichDisjointHitSet = 0\<rparr>],
      disjointHitSets = [0], mostRecentLocationReturned = 0\<rparr>"

text \<open>
  Inputs of phase 1: an index in which one seed has one forward hit, in which a seed is
  any text without the base \<^verbatim>\<open>N\<close>, and whose wrapped seed offsets are 0, 1, 2, ...; the
  members of phase 1 before the first call; and a read with the given bases.
\<close>

definition example_index :: genome_index where
  "example_index =
     \<lparr>lookupSeed = (\<lambda>seed.
        (\<lparr>wordBefore = None, entries = (if seed = ''ACGTACGT'' then [1000] else [])\<rparr>,
         \<lparr>wordBefore = None, entries = []\<rparr>)),
      DoesTextRepresentASeed = (\<lambda>seed. CHR ''N'' \<notin> set seed),
      GetWrappedNextSeedToTest = (\<lambda>seedLen' wrapCount'. wrapCount')\<rparr>"

definition example_seeding :: seeding where
  "example_seeding =
     \<lparr>hashTableHitSets = [[no_lookups, no_lookups], [no_lookups, no_lookups]],
      countOfHashTableLookups = [0, 0], popularSeedsSkipped = [0, 0],
      totalHashTableHits = [[0, 0], [0, 0]], seedLookups = []\<rparr>"

definition example_read :: "string \<Rightarrow> Read" where
  "example_read bases =
     \<lparr>readData = bases, readQuality = map (\<lambda>c. CHR ''I'') bases, readId = ''r''\<rparr>"

section \<open>The descent of phase 2: what it keeps\<close>




























section \<open>Properties\<close>

section \<open>Properties of the cluster counters\<close>

lemma counter_step_refl: "counter_step cnt tog cnt tog c"
  by (simp add: counter_step_def)

lemma counter_step_trans: "counter_step cnt tog cnt1 tog1 c \<Longrightarrow> counter_step cnt1 tog1 cnt2 tog2 c \<Longrightarrow> counter_step cnt tog cnt2 tog2 c"
  by (auto simp: counter_step_def split: if_splits)

lemma increment_cluster_loop_step:
  "increment_cluster_loop cfg best anchors (cnt, tog) = (cnt', tog') \<Longrightarrow> counter_step cnt tog cnt' tog' c"
proof (induction anchors arbitrary: cnt tog)
  case Nil
  then show ?case by (auto simp: counter_step_refl)
next
  case (Cons a anchors)
  let ?k = "clusterIdx a"
  let ?p = "if ?k = - 1 then clusterEDCompensation cfg else 0"
  show ?case
  proof (cases "pairScore a + ?p \<le> best + extraSearchDepth cfg \<and> ?k \<noteq> - 1 \<and> \<not> tog ?k")
    case True
    let ?cnt1 = "if cnt ?k \<noteq> 255 then cnt(?k := cnt ?k + 1) else cnt"
    let ?tog1 = "tog(?k := True)"
    from True Cons.prems have "increment_cluster_loop cfg best anchors (?cnt1, ?tog1) = (cnt', tog')"
      by (auto simp: Let_def split: if_splits)
    then have r: "counter_step ?cnt1 ?tog1 cnt' tog' c" by (rule Cons.IH)
    from True have "counter_step cnt tog ?cnt1 ?tog1 c" by (simp add: counter_step_def)
    then show ?thesis using r by (rule counter_step_trans)
  next
    case False
    with Cons.prems have "increment_cluster_loop cfg best anchors (cnt, tog) = (cnt', tog')"
      by (auto simp: Let_def split: if_splits)
    then show ?thesis by (rule Cons.IH)
  qed
qed

lemma increment_calls_step:
  "increment_calls cfg calls (cnt, tog) = (cnt', tog') \<Longrightarrow>
     counter_step cnt tog cnt' tog' c"
proof (induction calls arbitrary: cnt tog)
  case Nil
  then show ?case by (auto simp: counter_step_refl)
next
  case (Cons call calls)
  obtain anchors best where call: "call = (anchors, best)" by (cases call)
  obtain cnt1 tog1 where one: "increment_cluster_loop cfg best anchors (cnt, tog) = (cnt1, tog1)"
    by (cases "increment_cluster_loop cfg best anchors (cnt, tog)")
  from Cons.prems call one have rest: "increment_calls cfg calls (cnt1, tog1) = (cnt', tog')"
    by (simp add: align_phase_3_increment_cluster_def)
  from increment_cluster_loop_step [OF one, of c] Cons.IH [OF rest]
  show ?case by (rule counter_step_trans)
qed

lemma u8_succ_unat: "(x :: u8) \<noteq> 255 \<Longrightarrow> unat (x + 1) = unat x + 1"
proof -
  assume "x \<noteq> 255"
  moreover have "(255::u8) = - 1" by simp
  ultimately have "1 + x \<noteq> 0"
    by (simp add: eq_neg_iff_add_eq_0 add.commute)
  from unatSuc [OF this] show ?thesis by (simp add: add.commute)
qed

text \<open>
  Claim C7. After any sequence of \<^verbatim>\<open>align_phase_3_increment_cluster\<close> calls made for one
  pair (the toggle array threaded through the calls), every counter is at most 255, and
  the counter of a cluster goes up at most once and without wrapping around: where the
  toggle of \<open>c\<close> was already set the counter of \<open>c\<close> is unchanged, and where it was not,
  the counter is unchanged or exactly one higher, the toggle then being set.
\<close>

theorem increment_cluster_saturating_once:
  "(let (cnt', tog') = increment_calls cfg calls (clusterCounterAry, clusterToggle) in
      unat (cnt' c) \<le> 255 \<and>
      (if clusterToggle c then cnt' c = clusterCounterAry c \<and> tog' c
       else unat (cnt' c) = unat (clusterCounterAry c) \<or>
            unat (cnt' c) = unat (clusterCounterAry c) + 1 \<and> tog' c))"
proof -
  obtain cnt' tog' where r: "increment_calls cfg calls (clusterCounterAry, clusterToggle) = (cnt', tog')"
    by (cases "increment_calls cfg calls (clusterCounterAry, clusterToggle)")
  have b: "unat (cnt' c) \<le> 255"
    using unsigned_less [of "cnt' c", where 'a = nat] by simp
  from increment_calls_step [OF r, of c] b r show ?thesis
    by (auto simp: counter_step_def u8_succ_unat split: if_splits)
qed

section \<open>Properties of the corrected best score\<close>

text \<open>
  Claim C8. \<^verbatim>\<open>align_phase_3_correct_best_score\<close> is idempotent: called again on the
  best score it has just produced, with the same anchors, counters and minimum cluster
  size, it returns false and leaves the best score as it is.
\<close>

theorem correct_best_score_idempotent:
  "align_phase_3_correct_best_score cfg anchors clusterCounterAry
     (fst (align_phase_3_correct_best_score cfg anchors clusterCounterAry
             bestCompensatedScore minClusterSize))
     minClusterSize
   = (fst (align_phase_3_correct_best_score cfg anchors clusterCounterAry
             bestCompensatedScore minClusterSize), False)"
  by (simp add: align_phase_3_correct_best_score_def Let_def)

section \<open>Properties of the entry point\<close>

text \<open>
  Claim C9. For every input, \<^verbatim>\<open>align\<close> returns true and leaves the aligner's state, the
  result record, the secondary-result buffer and \<^verbatim>\<open>nSecondaryResults\<close> as they were: no
  phase runs.
\<close>

theorem align_does_no_work:
  "align st read0 read1 result maxEditDistanceForSecondaryResults secondaryResultBufferSize
     nSecondaryResults secondaryResults maxSecondaryResultsToReturn
   = (True, st, result, nSecondaryResults, secondaryResults)"
  by (simp add: align_def)


section \<open>Properties of scoring and of the generated results\<close>

lemmas example_defs =
  example_cfg_def table_externals_def example_candidate_def example_mate_def example_result_def
  blank_result_def two_pair_state_def merge_state_def merge_scored_def new_anchor_def

lemmas score_defs =
  score_loop.simps score_mates.simps align_phase_3_score_def score_candidate_def score_mate_def score_pair_def scoreLocation_def
  checkMerge_def find_merge_anchor_def mate_at_def set_mate_def setPairDirection_def
  genomeLocationIsWithin_def readWithMoreHits_def FORWARD_def RC_def Let_def

lemmas generate_defs =
  phase_3_run_def align_phase_3_increment_cluster_def align_phase_3_correct_best_score_def
  align_phase_3_count_results_def align_phase_3_generate_results_def cluster_decision_def
  setPairDirection_generate_def

text \<open>
  Claim C1 (the code departs from it). The two pairs of \<open>two_pair_state\<close> score 1 + 2 = 3
  (at 1000) and 2 + 3 = 5 (at 5000); both qualify with
  \<open>maxEditDistanceForSecondaryResults = 2\<close>. The full phase 3 sequence returns the pair
  of score 5 as the best result and leaves the pair of score 3, the qualifying anchor
  with the lowest compensated score, as the one secondary result:
  \<^verbatim>\<open>bestResultIdx = nextResultIdx\<close> is taken after \<^verbatim>\<open>nextResultIdx++\<close>, so it names the
  slot after the best anchor's.
\<close>

theorem generate_results_best_is_next_slot:
  "phase_3_run example_cfg
     (table_externals [(1000, 1, 1), (1400, 2, 1), (5000, 2, 1), (5400, 3, 1)])
     two_pair_state (\<lambda>c. 3) 2 2 [blank_result, blank_result, blank_result, blank_result]
   = Inr (3, 1,
          [example_result 3 [1000, 1400] [1, 2] 1 7,
           example_result 5 [5000, 5400] [2, 3] 1 7,
           blank_result, blank_result],
          example_result 5 [5000, 5400] [2, 3] 1 7)"
  by (simp add: example_defs score_defs generate_defs)

text \<open>
  Claim C2 (the code departs from it). In \<open>merge_state\<close> the candidate at 1000 is scored
  first: its pair of score 5 creates the anchor and becomes the best score. The
  candidate at 1010 then pairs with score 2 and adopts that anchor; \<^verbatim>\<open>checkMerge\<close>
  replaces the stored values with the new pair and returns false, which the caller
  stores in \<^verbatim>\<open>anchorUpdate\<close>. The pair of score 2 was accepted, is not in revise mode, is
  at most \<open>maxK + clusterEDCompensation = 8\<close> and below the best score 5, and the best
  score is still 5 when the pass ends.
\<close>

theorem merge_replacement_leaves_best_score:
  "checkMerge (table_externals [(1000, 5, 1), (1010, 2, 1), (1500, 0, 1)])
     (new_anchor 1500 1000 1 5 7 1 0) 1500 1010 1 2 7 0 0
   = (False, new_anchor 1500 1010 1 2 7 0 0)
   \<and> align_phase_3_score example_cfg
        (table_externals [(1000, 5, 1), (1010, 2, 1), (1500, 0, 1)]) merge_state 65536 False
      = Inr (merge_scored, 5)"
  by (simp add: example_defs score_defs)


text \<open>
  Nor is the pair score bounded by the limit \<open>maxK + extraSearchDepth +
  clusterEDCompensation = 10\<close> that a clustered candidate is scored against. In
  \<open>cached_mate_state\<close> the mate at 1500 is scored for the candidate at 1000, whose own
  score is 0, against the limit 10, and scores 9; that pair of score 9 is above
  \<open>maxK + clusterEDCompensation\<close> and leaves the score limit as it is. The candidate at 1200
  scores 2 and takes the mate's score as it stands (lines 787 and 804-807 score a mate
  again only when it has no score), so the pair of score 2 + 9 = 11 gets an anchor. The
  corrected best score is 9, the cut-off 9 + 2 = 11, and the pair of score 11 is reported
  (as the best result, by the slip of the slot index).
\<close>

theorem reported_pair_score_above_compensated_limit:
  "align_phase_3_score example_cfg
     (table_externals [(1000, 0, 1), (1200, 2, 1), (1500, 9, 1)]) cached_mate_state 65536 False
   = Inr (cached_mate_scored, 65536)
   \<and> phase_3_run example_cfg
       (table_externals [(1000, 0, 1), (1200, 2, 1), (1500, 9, 1)])
       cached_mate_state (\<lambda>c. 3) 2 2 [blank_result, blank_result, blank_result, blank_result]
     = Inr (9, 1,
            [example_result 9 [1000, 1500] [0, 9] 1 7,
             example_result 11 [1200, 1500] [2, 9] 1 7,
             blank_result, blank_result],
            example_result 11 [1200, 1500] [2, 9] 1 7)
   \<and> \<not> ((2 :: u32) + 9 \<le> maxK example_cfg + extraSearchDepth example_cfg
                               + clusterEDCompensation example_cfg)"
  by (simp add: example_defs score_defs generate_defs cached_mate_state_def cached_mate_scored_def)


lemma written_for_score:
  "compensatedScore r' = compensatedScore r \<Longrightarrow>
   written_for cfg cnt minSz cutoff a r' = written_for cfg cnt minSz cutoff a r"
  by (simp add: written_for_def)



section \<open>Properties of the mate window\<close>





















section \<open>Properties of the hit sets and of phase 2\<close>

lemmas hit_defs =
  probe_loop.simps one_lookup_def no_lookups_def example_descent_def fresh_aligner_def
  getNextHitLessThanOrEqualTo_def getNextLowerHit_def getFirstHit_def
  computeBestPossibleScoreForCurrentHit_def hit_is_close_def hit_at_def half_def
  maxMergeDistance_def genomeLocationIsWithin_def

lemmas phase_2_defs =
  to_target_loop.simps add_mates.simps align_phase_2_def align_phase_2_init_def phase_2_init_step_def align_phase_2_to_target_loc_def
  to_target_step_def align_phase_2_move_locus_def align_phase_2_single_step_add_candidate_def
  set_hit_set_def init_mate_def init_candidate_def readWithMoreHits_def Let_def

text \<open>
  Claim C10 as stated fails. A lookup with the single hit 5, its cursor at 0, is searched
  for a hit at most 10. The first probe is 0, and \<^verbatim>\<open>hits[probe]\<close> and \<^verbatim>\<open>hits[probe - 1]\<close>
  are both read (lines 1607-1608) before \<^verbatim>\<open>probe == 0\<close> is tested: the word before the
  array is read. Where no such word can be read the search leaves the array; where one
  can, here a word holding 77, the search returns the hit 5 and does not use the word.
\<close>

theorem binary_search_reads_before_the_hits:
  "getNextHitLessThanOrEqualTo (single_hit None) 10 0 0 = Inl (OutOfBounds HitsArray)
   \<and> getNextHitLessThanOrEqualTo (single_hit (Some 77)) 10 0 0
       = Inr (True, 5, 0, (single_hit (Some 77))\<lparr>mostRecentLocationReturned := 5\<rparr>)"
  by (simp add: hit_defs single_hit_def)

lemma half_between: "0 \<le> a \<Longrightarrow> a \<le> b \<Longrightarrow> a \<le> half (a + b) \<and> half (a + b) \<le> b"
  unfolding half_def by (simp, presburger)

lemma probe_loop_word:
  "0 \<le> limit0 \<Longrightarrow> limit1 < int (length (entries hs)) \<Longrightarrow>
   \<exists>r. \<forall>w. probe_loop (hs\<lparr>wordBefore := Some w\<rparr>) m limit0 limit1 = Inr r"
proof (induction "nat (limit1 - limit0 + 1)" arbitrary: limit0 limit1 rule: less_induct)
  case less
  show ?case
  proof (cases "limit0 \<le> limit1")
    case False
    then have "\<forall>w. probe_loop (hs\<lparr>wordBefore := Some w\<rparr>) m limit0 limit1 = Inr Crossed"
      by (subst probe_loop.simps) simp
    then show ?thesis by blast
  next
    case True
    define probe where "probe = half (limit0 + limit1)"
    from half_between [OF less.prems(1) True] have pr: "limit0 \<le> probe" "probe \<le> limit1"
      by (simp_all add: probe_def)
    with less.prems have inb: "0 \<le> probe" "probe < int (length (entries hs))" by simp_all
    define probeHit where "probeHit = entries hs ! nat probe"
    have at: "hit_at (hs\<lparr>wordBefore := Some w\<rparr>) probe = Some probeHit" for w
      using inb by (simp add: hit_at_def probeHit_def)
    show ?thesis
    proof (cases "probe = 0")
      case zero: True
      have before: "hit_at (hs\<lparr>wordBefore := Some w\<rparr>) (probe - 1) = Some w" for w
        using zero by (simp add: hit_at_def)
      show ?thesis
      proof (cases "probeHit \<le> m")
        case True
        have "\<forall>w. probe_loop (hs\<lparr>wordBefore := Some w\<rparr>) m limit0 limit1 = Inr (Found probe probeHit)"
          using True \<open>limit0 \<le> limit1\<close> zero at before
          by (subst probe_loop.simps) (simp add: Let_def probe_def [symmetric])
        then show ?thesis by blast
      next
        case False
        have step: "probe_loop (hs\<lparr>wordBefore := Some w\<rparr>) m limit0 limit1
                    = probe_loop (hs\<lparr>wordBefore := Some w\<rparr>) m (probe + 1) limit1" for w
          using False \<open>limit0 \<le> limit1\<close> zero at before
          by (subst probe_loop.simps) (simp add: Let_def probe_def [symmetric])
        have "nat (limit1 - (probe + 1) + 1) < nat (limit1 - limit0 + 1)" using pr by simp
        from less.hyps [OF this] inb less.prems(2)
        obtain r where "\<forall>w. probe_loop (hs\<lparr>wordBefore := Some w\<rparr>) m (probe + 1) limit1 = Inr r"
          by auto
        with step show ?thesis by auto
      qed
    next
      case pos: False
      with inb have inb1: "0 \<le> probe - 1" "probe - 1 < int (length (entries hs))" by simp_all
      define probeMinusOneHit where "probeMinusOneHit = entries hs ! nat (probe - 1)"
      have before: "hit_at (hs\<lparr>wordBefore := Some w\<rparr>) (probe - 1) = Some probeMinusOneHit" for w
        using inb1 pos by (simp add: hit_at_def probeMinusOneHit_def)
      show ?thesis
      proof (cases "probeHit \<le> m \<and> probeMinusOneHit > m")
        case True
        have "\<forall>w. probe_loop (hs\<lparr>wordBefore := Some w\<rparr>) m limit0 limit1 = Inr (Found probe probeHit)"
          using True \<open>limit0 \<le> limit1\<close> pos at before
          by (subst probe_loop.simps) (simp add: Let_def probe_def [symmetric])
        then show ?thesis by blast
      next
        case nf: False
        show ?thesis
        proof (cases "probeHit > m")
          case True
          have step: "probe_loop (hs\<lparr>wordBefore := Some w\<rparr>) m limit0 limit1
                    = probe_loop (hs\<lparr>wordBefore := Some w\<rparr>) m (probe + 1) limit1" for w
            using True \<open>limit0 \<le> limit1\<close> pos at before
            by (subst probe_loop.simps) (simp add: Let_def probe_def [symmetric])
          have "nat (limit1 - (probe + 1) + 1) < nat (limit1 - limit0 + 1)" using pr by simp
          from less.hyps [OF this] inb less.prems(2)
          obtain r where "\<forall>w. probe_loop (hs\<lparr>wordBefore := Some w\<rparr>) m (probe + 1) limit1 = Inr r"
            by auto
          with step show ?thesis by auto
        next
          case False
          have step: "probe_loop (hs\<lparr>wordBefore := Some w\<rparr>) m limit0 limit1
                    = probe_loop (hs\<lparr>wordBefore := Some w\<rparr>) m limit0 (probe - 1)" for w
            using False nf \<open>limit0 \<le> limit1\<close> pos at before
            by (subst probe_loop.simps) (simp add: Let_def probe_def [symmetric])
          have "nat (probe - 1 - limit0 + 1) < nat (limit1 - limit0 + 1)" using pr by simp
          from less.hyps [OF this less.prems(1)] inb1
          obtain r where "\<forall>w. probe_loop (hs\<lparr>wordBefore := Some w\<rparr>) m limit0 (probe - 1) = Inr r"
            by auto
          with step show ?thesis by auto
        qed
      qed
    qed
  qed
qed


lemma lookup_with_word_fields:
  "hits (lookup_with_word w l) = (hits l)\<lparr>wordBefore := Some w\<rparr>"
  "nHits (lookup_with_word w l) = nHits l"
  "currentHitForIntersection (lookup_with_word w l) = currentHitForIntersection l"
  "lookupSeedOffset (lookup_with_word w l) = lookupSeedOffset l"
  "(lookup_with_word w l)\<lparr>currentHitForIntersection := x\<rparr>
     = lookup_with_word w (l\<lparr>currentHitForIntersection := x\<rparr>)"
  by (simp_all add: lookup_with_word_def)

lemma next_hit_loop_word:
  "\<forall>l \<in> set ls. lookup_in_range l \<Longrightarrow>
   \<exists>anyFound' best' actual' so' mostRecent' done'.
     \<forall>w. next_hit_loop m (map (lookup_with_word w) ls)
            (anyFound, best, actual, so, mostRecent, map (lookup_with_word w) done)
          = Inr (anyFound', best', actual', so', mostRecent', map (lookup_with_word w) done')"
proof (induction ls arbitrary: anyFound best actual so mostRecent "done")
  case Nil
  then show ?case by auto
next
  case (Cons l ls)
  from Cons.prems have r: "lookup_in_range l" and rest: "\<forall>l \<in> set ls. lookup_in_range l" by simp_all
  from r have "0 \<le> currentHitForIntersection l" "nHits l - 1 < int (length (entries (hits l)))"
    by (simp_all add: lookup_in_range_def)
  from probe_loop_word [OF this, of "m + uint (lookupSeedOffset l)"]
  obtain pr where pr: "\<And>w. probe_loop ((hits l)\<lparr>wordBefore := Some w\<rparr>) (m + uint (lookupSeedOffset l))
                         (currentHitForIntersection l) (nHits l - 1) = Inr pr" by blast
  show ?case
  proof (cases pr)
    case Crossed
    have app: "map (lookup_with_word w) done @ [lookup_with_word w (l\<lparr>currentHitForIntersection := nHits l\<rparr>)]
               = map (lookup_with_word w) (done @ [l\<lparr>currentHitForIntersection := nHits l\<rparr>])" for w
      by simp
    from Cons.IH [OF rest, of anyFound best actual so mostRecent
                    "done @ [l\<lparr>currentHitForIntersection := nHits l\<rparr>]"]
    obtain a b c d e f where
      "\<forall>w. next_hit_loop m (map (lookup_with_word w) ls)
            (anyFound, best, actual, so, mostRecent,
             map (lookup_with_word w) (done @ [l\<lparr>currentHitForIntersection := nHits l\<rparr>]))
          = Inr (a, b, c, d, e, map (lookup_with_word w) f)" by blast
    then have "\<forall>w. next_hit_loop m (map (lookup_with_word w) (l # ls))
            (anyFound, best, actual, so, mostRecent, map (lookup_with_word w) done)
          = Inr (a, b, c, d, e, map (lookup_with_word w) f)"
      using pr Crossed by (simp add: lookup_with_word_fields del: map_append) (simp add: app del: map_append)
    then show ?thesis by blast
  next
    case (Found probe probeHit)
    have app: "map (lookup_with_word w) done @ [lookup_with_word w (l\<lparr>currentHitForIntersection := probe\<rparr>)]
               = map (lookup_with_word w) (done @ [l\<lparr>currentHitForIntersection := probe\<rparr>])" for w
      by simp
    show ?thesis
    proof (cases "probeHit - uint (lookupSeedOffset l) > best")
      case True
      from Cons.IH [OF rest, of True "probeHit - uint (lookupSeedOffset l)"
                      "probeHit - uint (lookupSeedOffset l)" "lookupSeedOffset l"
                      "probeHit - uint (lookupSeedOffset l)"
                      "done @ [l\<lparr>currentHitForIntersection := probe\<rparr>]"]
      obtain a b c d e f where
        "\<forall>w. next_hit_loop m (map (lookup_with_word w) ls)
            (True, probeHit - uint (lookupSeedOffset l), probeHit - uint (lookupSeedOffset l),
             lookupSeedOffset l, probeHit - uint (lookupSeedOffset l),
             map (lookup_with_word w) (done @ [l\<lparr>currentHitForIntersection := probe\<rparr>]))
          = Inr (a, b, c, d, e, map (lookup_with_word w) f)" by blast
      then have "\<forall>w. next_hit_loop m (map (lookup_with_word w) (l # ls))
            (anyFound, best, actual, so, mostRecent, map (lookup_with_word w) done)
          = Inr (a, b, c, d, e, map (lookup_with_word w) f)"
        using pr Found True by (simp add: lookup_with_word_fields Let_def del: map_append) (simp add: app del: map_append)
      then show ?thesis by blast
    next
      case False
      from Cons.IH [OF rest, of anyFound best actual so mostRecent
                      "done @ [l\<lparr>currentHitForIntersection := probe\<rparr>]"]
      obtain a b c d e f where
        "\<forall>w. next_hit_loop m (map (lookup_with_word w) ls)
            (anyFound, best, actual, so, mostRecent,
             map (lookup_with_word w) (done @ [l\<lparr>currentHitForIntersection := probe\<rparr>]))
          = Inr (a, b, c, d, e, map (lookup_with_word w) f)" by blast
      then have "\<forall>w. next_hit_loop m (map (lookup_with_word w) (l # ls))
            (anyFound, best, actual, so, mostRecent, map (lookup_with_word w) done)
          = Inr (a, b, c, d, e, map (lookup_with_word w) f)"
        using pr Found False by (simp add: lookup_with_word_fields Let_def del: map_append) (simp add: app del: map_append)
      then show ?thesis by blast
    qed
  qed
qed

text \<open>
  Claim C10 as amended. Let every lookup of the hit set have
  \<open>0 \<le> currentHitForIntersection \<le> nHits\<close>, with \<^verbatim>\<open>nHits\<close> at most the number of entries of
  its array. Then, in a memory where the word before each array can be read,
  \<^verbatim>\<open>getNextHitLessThanOrEqualTo\<close> returns, and what it returns (whether a hit was found,
  its location and seed offset, the cursors and the location last returned) is the same
  whatever those words hold. So every read of the binary search is of an entry of the
  array or, at probe 0, of the word before it, and the value of that word is not used.
\<close>

theorem binary_search_returns_whatever_precedes_the_hits:
  assumes "\<forall>l \<in> set (lookups h). lookup_in_range l"
  shows "\<exists>found location seedOffset' h'.
           \<forall>w. getNextHitLessThanOrEqualTo (with_word_before w h) maxGenomeLocationToFind
                  actualGenomeLocationFound seedOffsetFound
                = Inr (found, location, seedOffset', with_word_before w h')"
proof -
  from next_hit_loop_word [OF assms, of maxGenomeLocationToFind False 0 actualGenomeLocationFound
         seedOffsetFound "mostRecentLocationReturned h" "[]"]
  obtain a b c d e f where
    run: "\<And>w. next_hit_loop maxGenomeLocationToFind (map (lookup_with_word w) (lookups h))
            (False, 0, actualGenomeLocationFound, seedOffsetFound, mostRecentLocationReturned h, [])
          = Inr (a, b, c, d, e, map (lookup_with_word w) f)" by auto
  have "\<forall>w. getNextHitLessThanOrEqualTo (with_word_before w h) maxGenomeLocationToFind
                  actualGenomeLocationFound seedOffsetFound
                = Inr (a, c, d, with_word_before w (h\<lparr>lookups := f, mostRecentLocationReturned := e\<rparr>))"
    by (simp add: getNextHitLessThanOrEqualTo_def with_word_before_def run)
  then show ?thesis by blast
qed

theorem binary_search_returns_whatever_precedes_the_hits_witness:
  "lookup_in_range (hd (lookups (one_lookup [9, 5] 0)))
   \<and> (\<exists>found location seedOffset' h'.
         \<forall>w. getNextHitLessThanOrEqualTo (with_word_before w (one_lookup [9, 5] 0)) 7 0 0
              = Inr (found, location, seedOffset', with_word_before w h'))"
proof -
  have r: "\<forall>l \<in> set (lookups (one_lookup [9, 5] 0)). lookup_in_range l"
    by (simp add: one_lookup_def lookup_in_range_def)
  from binary_search_returns_whatever_precedes_the_hits [OF r, of 7 0 0] r
  show ?thesis by (simp add: one_lookup_def)
qed

text \<open>
  Claim C3 (the code departs from it). With \<open>maxK + extraSearchDepth = 7\<close> the array of
  score lists has 8 entries. The read with fewer hits has a hit at 1000 and three seeds
  without hits, its mate a hit at 1400 and two seeds without hits, so the lower bound of
  the pair is 3 + 2 = 5, which is at most 7. \<^verbatim>\<open>align_phase_2\<close> passes the cluster identifier
  \<open>- 1\<close>, the candidate is inserted at \<open>5 + clusterEDCompensation = 8\<close>, and that is past
  the end of the array.
\<close>

theorem add_candidate_inserts_past_the_score_lists:
  "align_phase_2 example_cfg (table_externals [])
     (example_descent (one_lookup [1000] 3) (one_lookup [9000, 5000, 1400] 2), fresh_aligner)
   = Some (Inl (OutOfBounds ScoringCandidatesArray))"
  by (simp add: hit_defs phase_2_defs example_defs)

section \<open>Properties of the descent of phase 2\<close>


























































section \<open>Properties of phase 1\<close>

text \<open>
  The loop over the seeds of a read ends: each pass that continues marks a seed that was
  not used, or wraps (which it does fewer than \<^verbatim>\<open>seedLen\<close> times), or moves the next seed
  to test past the last seed of the read, after which the next pass wraps or stops.
\<close>

lemma skip_used_unused: "skip_used u n i < n \<Longrightarrow> \<not> IsSeedUsed u (skip_used u n i)"
proof (induction u n i rule: skip_used.induct)
  case (1 u n i)
  show ?case
  proof (cases "i < n \<and> IsSeedUsed u i")
    case True
    then have eq: "skip_used u n i = skip_used u n (i + 1)" by (subst skip_used.simps) simp
    from 1 True show ?thesis unfolding eq by simp
  next
    case False
    then have eq: "skip_used u n i = i" by (subst skip_used.simps) auto
    from 1(2) False show ?thesis unfolding eq by auto
  qed
qed

lemma record_direction_keeps:
  "record_direction cfg whichRead readLen dir hs ls = Inr ls' \<Longrightarrow>
     seedUsed ls' = seedUsed ls \<and> wrapCount ls' = wrapCount ls \<and> nextSeedToTest ls' = nextSeedToTest ls"
  unfolding record_direction_def
  by (simp add: Let_def split: if_splits sum.splits) (hypsubst, simp)+

lemma seed_lookup_keeps:
  "seed_lookup cfg idx maxSeeds whichRead data n ls = Inr ls' \<Longrightarrow>
     seedUsed ls' = seedUsed ls \<and> wrapCount ls' = wrapCount ls"
proof -
  assume a: "seed_lookup cfg idx maxSeeds whichRead data n ls = Inr ls'"
  obtain hf hr where l: "lookupSeed idx (take (seedLen cfg) (drop (nextSeedToTest ls) data)) = (hf, hr)"
    by (cases "lookupSeed idx (take (seedLen cfg) (drop (nextSeedToTest ls) data))")
  let ?m = "members ls"
  let ?ls1 = "ls\<lparr>members := ?m\<lparr>
                  countOfHashTableLookups := (countOfHashTableLookups ?m)[whichRead := countOfHashTableLookups ?m ! whichRead + 1],
                  seedLookups := (whichRead, nextSeedToTest ls) # seedLookups ?m\<rparr>\<rparr>"
  from a l obtain ls2 ls3 where
    r1: "record_direction cfg whichRead (length data) FORWARD hf ?ls1 = Inr ls2" and
    r2: "record_direction cfg whichRead (length data) RC hr ls2 = Inr ls3" and
    e: "seedUsed ls' = seedUsed ls3 \<and> wrapCount ls' = wrapCount ls3"
    unfolding seed_lookup_def
    by (simp add: Let_def split: sum.splits) (hypsubst, simp)
  from record_direction_keeps [OF r1] record_direction_keeps [OF r2] e show ?thesis by simp
qed

lemma unused_mark:
  assumes "i < n" and "\<not> IsSeedUsed (seedUsed ls) i"
    and "seedUsed ls' = SetSeedUsed (seedUsed ls) i"
  shows "unused n ls' < unused n ls"
proof -
  let ?A = "{0..<n} - set (seedUsed ls)"
  have "{0..<n} - set (seedUsed ls') = ?A - {i}"
    using assms(3) by (simp add: SetSeedUsed_def) blast
  moreover have "i \<in> ?A" using assms(1,2) by (simp add: IsSeedUsed_def)
  moreover have "finite ?A" by simp
  ultimately show ?thesis
    unfolding unused_def using card_Diff1_less [of ?A i] by simp
qed

lemma seed_wrap_continue:
  "seed_wrap cfg idx n ls = Continue ls1 \<Longrightarrow>
     seedUsed ls1 = seedUsed ls \<and>
     (if n \<le> nextSeedToTest ls
      then wrapCount ls1 = wrapCount ls + 1 \<and> wrapCount ls + 1 < seedLen cfg
      else ls1 = ls)"
  unfolding seed_wrap_def
  by (simp add: Let_def split: if_splits) (hypsubst, simp)+

lemma seed_try_continue:
  "seed_try cfg idx maxSeeds whichRead data n ls = Inr (Continue ls') \<Longrightarrow>
     wrapCount ls' = wrapCount ls \<and>
     (if n \<le> skip_used (seedUsed ls) n (nextSeedToTest ls)
      then seedUsed ls' = seedUsed ls \<and> n \<le> nextSeedToTest ls'
      else seedUsed ls' = SetSeedUsed (seedUsed ls) (skip_used (seedUsed ls) n (nextSeedToTest ls)))"
  unfolding seed_try_def
  apply (simp add: Let_def split: if_splits sum.splits)
    apply (hypsubst, simp)
   apply (hypsubst, simp)
  apply (drule seed_lookup_keeps, simp)
  done

lemma seed_pass_decreases:
  assumes "seed_pass cfg idx maxSeeds whichRead data n ls = Inr (Continue ls')"
  shows "unused n ls' < unused n ls
       \<or> (unused n ls' = unused n ls \<and> seedLen cfg - wrapCount ls' < seedLen cfg - wrapCount ls)
       \<or> (unused n ls' = unused n ls \<and> wrapCount ls' = wrapCount ls
           \<and> nextSeedToTest ls < n \<and> n \<le> nextSeedToTest ls')"
proof -
  from assms obtain ls1 where w: "seed_wrap cfg idx n ls = Continue ls1"
    and t: "seed_try cfg idx maxSeeds whichRead data n ls1 = Inr (Continue ls')"
    by (simp add: seed_pass_def split: pass.splits)
  note w' = seed_wrap_continue [OF w] and t' = seed_try_continue [OF t]
  let ?k = "skip_used (seedUsed ls1) n (nextSeedToTest ls1)"
  show ?thesis
  proof (cases "n \<le> ?k")
    case True
    with t' w' have "unused n ls' = unused n ls" by (simp add: unused_def)
    moreover from True t' w' have "if n \<le> nextSeedToTest ls
        then seedLen cfg - wrapCount ls' < seedLen cfg - wrapCount ls
        else wrapCount ls' = wrapCount ls \<and> n \<le> nextSeedToTest ls'"
      by (auto split: if_splits)
    ultimately show ?thesis by (auto split: if_splits)
  next
    case False
    then have lt: "?k < n" by simp
    then have nu: "\<not> IsSeedUsed (seedUsed ls1) ?k" by (rule skip_used_unused)
    from False t' have mark: "seedUsed ls' = SetSeedUsed (seedUsed ls1) ?k" by simp
    from unused_mark [OF lt nu mark] w' show ?thesis by (simp add: unused_def)
  qed
qed

termination seed_loop
proof (relation "measures [\<lambda>(cfg, idx, maxSeeds, whichRead, data, n, ls). unused n ls,
                           \<lambda>(cfg, idx, maxSeeds, whichRead, data, n, ls). seedLen cfg - wrapCount ls,
                           \<lambda>(cfg, idx, maxSeeds, whichRead, data, n, ls). if nextSeedToTest ls < n then 1 else 0]",
       goal_cases)
  case 1
  show ?case by simp
next
  case (2 cfg idx maxSeeds whichRead data n ls x ls')
  then have "seed_pass cfg idx maxSeeds whichRead data n ls = Inr (Continue ls')" by simp
  from seed_pass_decreases [OF this] show ?case by auto
qed

lemma align_phase_1_not_early:
  assumes "\<not> (length (readData read0) < seedLen cfg \<or> length (readData read1) < seedLen cfg)"
    and "\<not> unat (maxK cfg) < countNs (readData read0) + countNs (readData read1)"
  shows "align_phase_1 cfg idx read0 read1 (st, m) \<noteq> Inr (True, st', m')"
  using assms unfolding align_phase_1_def
  by (simp add: Let_def split: sum.splits)

text \<open>
  Claim C6 as stated fails. With \<^verbatim>\<open>maxReadSize = 10\<close>, \<^verbatim>\<open>seedLen = 8\<close> and \<^verbatim>\<open>maxK = 5\<close>, read 0
  is twelve \<^verbatim>\<open>N\<close>s and read 1 has ten bases: no read is shorter than the seed length and
  the reads hold twelve \<^verbatim>\<open>N\<close>s, more than \<^verbatim>\<open>maxK\<close>, yet the call does not return the
  early exit: read 0 is longer than \<^verbatim>\<open>maxReadSize\<close>, which ends the process (lines 251-255)
  before the \<^verbatim>\<open>N\<close>s are compared with \<^verbatim>\<open>maxK\<close> (line 266).
\<close>

theorem too_big_read_exits_before_the_N_count:
  "align_phase_1 (example_cfg\<lparr>maxReadSize := 10\<rparr>) example_index
     (example_read ''NNNNNNNNNNNN'') (example_read ''ACGTACGTAC'') (fresh_aligner, example_seeding)
   = Inl ReadTooBig
   \<and> unat (maxK (example_cfg\<lparr>maxReadSize := 10\<rparr>))
       < countNs (readData (example_read ''NNNNNNNNNNNN'')) + countNs (readData (example_read ''ACGTACGTAC''))"
  by (simp add: align_phase_1_def example_cfg_def example_read_def countNs_def Let_def)

text \<open>
  Claim C6 as amended. \<^verbatim>\<open>align_phase_1\<close> returns the early exit exactly when a read is
  shorter than the seed length, or neither read is longer than \<^verbatim>\<open>maxReadSize\<close> and the two
  forward reads hold more than \<^verbatim>\<open>maxK\<close> bases \<^verbatim>\<open>N\<close>. When both reads are at least as long
  as a seed and one of them is longer than \<^verbatim>\<open>maxReadSize\<close>, the call ends the process,
  whatever the number of \<^verbatim>\<open>N\<close>s. And whenever the call returns the early exit, no seed
  has been looked up in the hash table.
\<close>

theorem align_phase_1_early_exit:
  "((\<exists>st' m'. align_phase_1 cfg idx read0 read1 (st, m) = Inr (True, st', m'))
      \<longleftrightarrow> (length (readData read0) < seedLen cfg \<or> length (readData read1) < seedLen cfg
            \<or> (length (readData read0) \<le> maxReadSize cfg \<and> length (readData read1) \<le> maxReadSize cfg
               \<and> unat (maxK cfg) < countNs (readData read0) + countNs (readData read1))))
   \<and> (seedLen cfg \<le> length (readData read0) \<and> seedLen cfg \<le> length (readData read1)
        \<and> (maxReadSize cfg < length (readData read0) \<or> maxReadSize cfg < length (readData read1))
      \<longrightarrow> align_phase_1 cfg idx read0 read1 (st, m) = Inl ReadTooBig)
   \<and> (\<forall>st' m'. align_phase_1 cfg idx read0 read1 (st, m) = Inr (True, st', m')
          \<longrightarrow> seedLookups m' = [])"
proof (cases "length (readData read0) < seedLen cfg \<or> length (readData read1) < seedLen cfg")
  case True
  then show ?thesis unfolding align_phase_1_def by (auto simp: Let_def)
next
  case short: False
  show ?thesis
  proof (cases "maxReadSize cfg < length (readData read0) \<or> maxReadSize cfg < length (readData read1)")
    case True
    with short have "align_phase_1 cfg idx read0 read1 (st, m) = Inl ReadTooBig"
      unfolding align_phase_1_def by (auto simp: Let_def)
    with short True show ?thesis by auto
  next
    case fits: False
    show ?thesis
    proof (cases "unat (maxK cfg) < countNs (readData read0) + countNs (readData read1)")
      case True
      with short fits show ?thesis
        unfolding align_phase_1_def by (auto simp: Let_def reset_read_def)
    next
      case False
      from align_phase_1_not_early [OF short False] short fits False show ?thesis by auto
    qed
  qed
qed

theorem align_phase_1_early_exit_witness:
  "length (readData (example_read ''ACGT'')) < seedLen example_cfg
   \<and> (\<exists>st' m'. align_phase_1 example_cfg example_index (example_read ''ACGT'')
                  (example_read ''TTTTACGTACGTNCCC'') (fresh_aligner, example_seeding)
                = Inr (True, st', m') \<and> seedLookups m' = [])
   \<and> seedLen (example_cfg\<lparr>maxReadSize := 10\<rparr>) \<le> length (readData (example_read ''ACGTACGTACGT''))
   \<and> seedLen (example_cfg\<lparr>maxReadSize := 10\<rparr>) \<le> length (readData (example_read ''ACGTACGTAC''))
   \<and> maxReadSize (example_cfg\<lparr>maxReadSize := 10\<rparr>) < length (readData (example_read ''ACGTACGTACGT''))
   \<and> align_phase_1 (example_cfg\<lparr>maxReadSize := 10\<rparr>) example_index (example_read ''ACGTACGTACGT'')
        (example_read ''ACGTACGTAC'') (fresh_aligner, example_seeding) = Inl ReadTooBig"
proof -
  have c: "length (readData (example_read ''ACGT'')) < seedLen example_cfg"
    and d: "seedLen (example_cfg\<lparr>maxReadSize := 10\<rparr>) \<le> length (readData (example_read ''ACGTACGTACGT''))"
           "seedLen (example_cfg\<lparr>maxReadSize := 10\<rparr>) \<le> length (readData (example_read ''ACGTACGTAC''))"
           "maxReadSize (example_cfg\<lparr>maxReadSize := 10\<rparr>) < length (readData (example_read ''ACGTACGTACGT''))"
    by (simp_all add: example_read_def example_cfg_def)
  from align_phase_1_early_exit [of example_cfg example_index "example_read ''ACGT''"
         "example_read ''TTTTACGTACGTNCCC''" fresh_aligner example_seeding]
       align_phase_1_early_exit [of "example_cfg\<lparr>maxReadSize := 10\<rparr>" example_index
         "example_read ''ACGTACGTACGT''" "example_read ''ACGTACGTAC''" fresh_aligner example_seeding]
       c d
  show ?thesis by blast
qed

end
